theory Spec2Isabelle
  imports Main "HOL-Library.Word"
begin

section \<open>Go values used by the schedule operations\<close>

text \<open>
  A Go \<^verbatim>\<open>string\<close> is a sequence of bytes and is modelled as \<^typ>\<open>string\<close>
  (a list of 8-bit characters). A Go \<^verbatim>\<open>int\<close> is modelled as \<^typ>\<open>int\<close>: the
  operations below never compute with it, they only print it. A Go slice is either
  \<^verbatim>\<open>nil\<close> or a sequence of elements; since \<^verbatim>\<open>MarshalJSON\<close> compares a slice
  with \<^verbatim>\<open>nil\<close>, a slice is an \<^typ>\<open>'a list option\<close> with \<^term>\<open>None\<close> for
  \<^verbatim>\<open>nil\<close>. A \<^verbatim>\<open>float64\<close> is its 64 IEEE-754 bits.
\<close>

type_synonym 'a slice = "'a list option"

definition len :: "'a slice \<Rightarrow> nat" where
  "len s = (case s of None \<Rightarrow> 0 | Some xs \<Rightarrow> length xs)"

definition elems :: "'a slice \<Rightarrow> 'a list" where
  "elems s = (case s of None \<Rightarrow> [] | Some xs \<Rightarrow> xs)"

type_synonym float64 = "64 word"

text \<open>The fields of the IEEE-754 double format: the sign is bit 63, the exponent is
  bits 52 to 62 and the mantissa is bits 0 to 51. A value is infinite or not a number
  when all eleven bits of its exponent are set, and not a number when its mantissa is
  not zero then.\<close>

definition float_sign :: "float64 \<Rightarrow> bool" where
  "float_sign f \<longleftrightarrow> 2 ^ 63 \<le> unat f"

definition float_exponent :: "float64 \<Rightarrow> nat" where
  "float_exponent f = (unat f div 2 ^ 52) mod 2 ^ 11"

definition float_mantissa :: "float64 \<Rightarrow> nat" where
  "float_mantissa f = unat f mod 2 ^ 52"

definition math_IsNaN :: "float64 \<Rightarrow> bool" where
  "math_IsNaN f \<longleftrightarrow> float_exponent f = 2047 \<and> float_mantissa f \<noteq> 0"

definition math_IsInf :: "float64 \<Rightarrow> bool" where
  "math_IsInf f \<longleftrightarrow> float_exponent f = 2047 \<and> float_mantissa f = 0"

text \<open>The value of \<^verbatim>\<open>math.NaN()\<close>.\<close>

definition math_NaN :: float64 where
  "math_NaN = 0x7FF8000000000001"

text \<open>The Go comparison \<^verbatim>\<open>f == 0\<close>: true of both signed zeros.\<close>

definition float_is_zero :: "float64 \<Rightarrow> bool" where
  "float_is_zero f \<longleftrightarrow> unat f mod 2 ^ 63 = 0"

datatype error =
  ParseError string string
| UnsupportedValueError string

subsection \<open>Decimal printing (strconv)\<close>

definition digit_char :: "nat \<Rightarrow> char" where
  "digit_char n = ''0123456789'' ! n"

fun digits10 :: "nat \<Rightarrow> string" where
  "digits10 n = (if n < 10 then [digit_char n] else digits10 (n div 10) @ [digit_char (n mod 10)])"

declare digits10.simps [simp del]

definition strconv_Itoa :: "int \<Rightarrow> string" where
  "strconv_Itoa i = (if i < 0 then CHR ''-'' # digits10 (nat (- i)) else digits10 (nat i))"

text \<open>\<^verbatim>\<open>appendInt(b, x, width)\<close> of package time, for a non-negative \<^verbatim>\<open>x\<close>:
  the decimal digits, padded with zeros on the left to the width.\<close>

definition appendInt :: "nat \<Rightarrow> nat \<Rightarrow> string" where
  "appendInt x width = replicate (width - length (digits10 x)) CHR ''0'' @ digits10 x"

subsection \<open>Dates: \<^verbatim>\<open>time.Parse("2006-01-02", s)\<close> and \<^verbatim>\<open>omise.Date\<close>\<close>

text \<open>
  The only times the operations handle are the results of parsing with the date-only
  layout, which are midnights in UTC, and the zero time (January 1 of year 1, UTC).
  A time is therefore the civil date it falls on.
\<close>

record Date =
  year :: nat
  month :: nat
  day :: nat

definition zero_Date :: Date where
  "zero_Date = \<lparr>year = 1, month = 1, day = 1\<rparr>"

definition isDigit :: "char \<Rightarrow> bool" where
  "isDigit c \<longleftrightarrow> 48 \<le> (of_char c :: nat) \<and> (of_char c :: nat) \<le> 57"

definition digit_val :: "char \<Rightarrow> nat" where
  "digit_val c = of_char c - 48"

definition isLeap :: "nat \<Rightarrow> bool" where
  "isLeap y \<longleftrightarrow> y mod 4 = 0 \<and> (y mod 100 \<noteq> 0 \<or> y mod 400 = 0)"

definition daysIn :: "nat \<Rightarrow> nat \<Rightarrow> nat" where
  "daysIn m y =
     (if m = 2 then (if isLeap y then 29 else 28)
      else if m = 4 \<or> m = 6 \<or> m = 9 \<or> m = 11 then 30
      else 31)"

definition date_layout :: string where
  "date_layout = ''2006-01-02''"

text \<open>
  \<^verbatim>\<open>time.Parse\<close> with the layout \<^verbatim>\<open>2006-01-02\<close>: a four-digit year, a hyphen, a
  two-digit month, a hyphen, a two-digit day and nothing after it; the month must be
  1 to 12 and the day must exist in that month of that year. Of the fields of
  \<^verbatim>\<open>time.ParseError\<close> the layout and the value are kept.
\<close>

definition time_Parse :: "string \<Rightarrow> error + Date" where
  "time_Parse v =
     (case v of
        [y1, y2, y3, y4, h1, m1, m2, h2, d1, d2] \<Rightarrow>
          (if isDigit y1 \<and> isDigit y2 \<and> isDigit y3 \<and> isDigit y4 \<and> h1 = CHR ''-''
              \<and> isDigit m1 \<and> isDigit m2 \<and> h2 = CHR ''-'' \<and> isDigit d1 \<and> isDigit d2
           then
             (let y = digit_val y1 * 1000 + digit_val y2 * 100 + digit_val y3 * 10 + digit_val y4;
                  m = digit_val m1 * 10 + digit_val m2;
                  d = digit_val d1 * 10 + digit_val d2
              in if m \<le> 0 \<or> 12 < m then Inl (ParseError date_layout v)
                 else if d < 1 \<or> daysIn m y < d then Inl (ParseError date_layout v)
                 else Inr \<lparr>year = y, month = m, day = d\<rparr>)
           else Inl (ParseError date_layout v))
      | _ \<Rightarrow> Inl (ParseError date_layout v))"

text \<open>\<^verbatim>\<open>Time.Format("2006-01-02")\<close>.\<close>

definition Format_date :: "Date \<Rightarrow> string" where
  "Format_date t = appendInt (year t) 4 @ ''-'' @ appendInt (month t) 2 @ ''-'' @ appendInt (day t) 2"

text \<open>
  Modelled from the spec: \<^verbatim>\<open>omise.Date.MarshalJSON\<close>, the date adapter of the root
  package, is not among the sources. The spec has it encode a date as the wire date
  format, date-only with no time of day and no time zone, and the tests expect the JSON
  string \<^verbatim>\<open>"2017-05-15"\<close> for that date; it never fails. \<^verbatim>\<open>json.Marshal\<close>
  checks the bytes of a \<^verbatim>\<open>Marshaler\<close> and copies them when they are valid JSON, as
  a quoted run of digits and hyphens is.
\<close>

definition Date_MarshalJSON :: "Date \<Rightarrow> string" where
  "Date_MarshalJSON d = [CHR 0x22] @ Format_date d @ [CHR 0x22]"

definition date_chars :: "char set" where
  "date_chars = set ''0123456789-''"

subsection \<open>JSON documents and their encoding (encoding/json)\<close>

text \<open>
  \<^verbatim>\<open>json.Marshal\<close> walks a struct in the order of its fields and writes each field
  under the key of its tag. The document it writes is kept as a value, so that the keys
  of an object can be talked about; \<open>encode\<close> gives the bytes. \<open>JNumber\<close> holds a
  number already printed and \<open>JRaw\<close> the bytes a \<^verbatim>\<open>Marshaler\<close> returned.
\<close>

datatype json =
  JInt int
| JNumber string
| JString string
| JRaw string
| JArray "json list"
| JObject "(string \<times> json) list"

definition hex :: "nat \<Rightarrow> char" where
  "hex n = ''0123456789abcdef'' ! n"

text \<open>The table \<^verbatim>\<open>htmlSafeSet\<close>: the ASCII bytes written as they are. The others
  are escaped as current Go releases escape them (older ones write the backspace and the
  form feed as six-character escapes of U+0008 and U+000C); no claim below depends on
  the escapes.\<close>

definition htmlSafe :: "char \<Rightarrow> bool" where
  "htmlSafe c \<longleftrightarrow> 0x20 \<le> (of_char c :: nat) \<and> (of_char c :: nat) < 0x80
     \<and> c \<noteq> CHR 0x22 \<and> c \<noteq> CHR ''&'' \<and> c \<noteq> CHR ''<'' \<and> c \<noteq> CHR ''>'' \<and> c \<noteq> CHR 0x5C"

definition escape_ascii :: "char \<Rightarrow> string" where
  "escape_ascii c =
     (if c = CHR 0x5C \<or> c = CHR 0x22 then [CHR 0x5C, c]
      else if c = CHR 0x08 then [CHR 0x5C, CHR ''b'']
      else if c = CHR 0x0C then [CHR 0x5C, CHR ''f'']
      else if c = CHR 0x0A then [CHR 0x5C, CHR ''n'']
      else if c = CHR 0x0D then [CHR 0x5C, CHR ''r'']
      else if c = CHR 0x09 then [CHR 0x5C, CHR ''t'']
      else [CHR 0x5C, CHR ''u'', CHR ''0'', CHR ''0'',
            hex ((of_char c :: nat) div 16), hex ((of_char c :: nat) mod 16)])"

definition in_range :: "char \<Rightarrow> nat \<Rightarrow> nat \<Rightarrow> bool" where
  "in_range c lo hi \<longleftrightarrow> lo \<le> (of_char c :: nat) \<and> (of_char c :: nat) \<le> hi"

text \<open>
  \<^verbatim>\<open>utf8.DecodeRuneInString\<close> at a byte that is not ASCII, as far as the encoder
  needs it: the length of a well-formed encoding at the head of the string, or
  \<^term>\<open>None\<close> where Go answers \<^verbatim>\<open>(RuneError, 1)\<close>.
\<close>

definition DecodeRune_size :: "string \<Rightarrow> nat option" where
  "DecodeRune_size s =
     (case s of
        [] \<Rightarrow> None
      | b0 # r \<Rightarrow>
          (if in_range b0 0xC2 0xDF then
             (case r of
                b1 # _ \<Rightarrow> if in_range b1 0x80 0xBF then Some 2 else None
              | _ \<Rightarrow> None)
           else if in_range b0 0xE0 0xEF then
             (case r of
                b1 # b2 # _ \<Rightarrow>
                  if in_range b1 (if b0 = CHR 0xE0 then 0xA0 else 0x80)
                                 (if b0 = CHR 0xED then 0x9F else 0xBF)
                     \<and> in_range b2 0x80 0xBF
                  then Some 3 else None
              | _ \<Rightarrow> None)
           else if in_range b0 0xF0 0xF4 then
             (case r of
                b1 # b2 # b3 # _ \<Rightarrow>
                  if in_range b1 (if b0 = CHR 0xF0 then 0x90 else 0x80)
                                 (if b0 = CHR 0xF4 then 0x8F else 0xBF)
                     \<and> in_range b2 0x80 0xBF \<and> in_range b3 0x80 0xBF
                  then Some 4 else None
              | _ \<Rightarrow> None)
           else None))"

text \<open>
  The loop of \<^verbatim>\<open>appendString\<close> with \<^verbatim>\<open>escapeHTML\<close> set, as \<^verbatim>\<open>json.Marshal\<close>
  sets it: a safe ASCII byte is copied, another ASCII byte is escaped, an ill-formed
  byte becomes the three bytes of U+FFFD in UTF-8 (releases up to Go 1.26 write its
  six-character escape instead), the line and paragraph separators U+2028 and U+2029
  are escaped and every other rune is copied.
\<close>

function appendString_loop :: "string \<Rightarrow> string" where
  "appendString_loop [] = []"
| "appendString_loop (b # r) =
     (if (of_char b :: nat) < 0x80 then
        (if htmlSafe b then [b] else escape_ascii b) @ appendString_loop r
      else
        (case DecodeRune_size (b # r) of
           None \<Rightarrow> [CHR 0xEF, CHR 0xBF, CHR 0xBD] @ appendString_loop r
         | Some n \<Rightarrow>
             if take 3 (b # r) = [CHR 0xE2, CHR 0x80, CHR 0xA8] then
               [CHR 0x5C, CHR ''u'', CHR ''2'', CHR ''0'', CHR ''2'', CHR ''8'']
               @ appendString_loop (drop 2 r)
             else if take 3 (b # r) = [CHR 0xE2, CHR 0x80, CHR 0xA9] then
               [CHR 0x5C, CHR ''u'', CHR ''2'', CHR ''0'', CHR ''2'', CHR ''9'']
               @ appendString_loop (drop 2 r)
             else take n (b # r) @ appendString_loop (drop (n - 1) r)))"
  by pat_completeness auto
termination
  by (relation "measure length") auto

definition appendString :: "string \<Rightarrow> string" where
  "appendString s = [CHR 0x22] @ appendString_loop s @ [CHR 0x22]"

fun join :: "string \<Rightarrow> string list \<Rightarrow> string" where
  "join sep [] = []"
| "join sep [x] = x"
| "join sep (x # y # ys) = x @ sep @ join sep (y # ys)"

fun encode :: "json \<Rightarrow> string" where
  "encode (JInt i) = strconv_Itoa i"
| "encode (JNumber s) = s"
| "encode (JString s) = appendString s"
| "encode (JRaw s) = s"
| "encode (JArray xs) = ''['' @ join '','' (map encode xs) @ '']''"
| "encode (JObject kvs) =
     ''{'' @ join '','' (map (\<lambda>kv. [CHR 0x22] @ fst kv @ [CHR 0x22, CHR '':''] @ encode (snd kv)) kvs) @ ''}''"

definition object_fields :: "json \<Rightarrow> (string \<times> json) list" where
  "object_fields j = (case j of JObject kvs \<Rightarrow> kvs | _ \<Rightarrow> [])"

definition object_keys :: "json \<Rightarrow> string list" where
  "object_keys j = map fst (object_fields j)"

definition object_member :: "json \<Rightarrow> string \<Rightarrow> json option" where
  "object_member j k = map_of (object_fields j) k"

section \<open>The schedule operations\<close>

text \<open>
  Modelled from the spec: the package \<^verbatim>\<open>schedule\<close> is not among the sources. Its
  \<^verbatim>\<open>Period\<close> is a string type (\<^verbatim>\<open>MarshalJSON\<close> compares it with string
  constants) with the units day, week and month of the spec; its \<^verbatim>\<open>Weekday\<close>
  encodes as the lower-case name of the day, as the tests expect, and is a string type
  too; \<^verbatim>\<open>Weekdays\<close> is a slice of weekdays and \<^verbatim>\<open>DaysOfMonth\<close> a slice of
  \<^verbatim>\<open>int\<close>.
\<close>

type_synonym Period = string
type_synonym Weekday = string

definition PeriodDay :: Period where "PeriodDay = ''day''"
definition PeriodWeek :: Period where "PeriodWeek = ''week''"
definition PeriodMonth :: Period where "PeriodMonth = ''month''"

definition Monday :: Weekday where "Monday = ''monday''"
definition Saturday :: Weekday where "Saturday = ''saturday''"

subsection \<open>The structs\<close>

record CreateChargeSchedule =
  Every :: int
  Period :: Period
  StartDate :: string
  EndDate :: string
  Weekdays :: "Weekday slice"
  DaysOfMonth :: "int slice"
  WeekdayOfMonth :: string
  Customer :: string
  Amount :: int
  Currency :: string
  Card :: string
  Description :: string

record CreateTransferSchedule =
  Every :: int
  Period :: Period
  StartDate :: string
  EndDate :: string
  Weekdays :: "Weekday slice"
  DaysOfMonth :: "int slice"
  WeekdayOfMonth :: string
  Recipient :: string
  Amount :: int
  PercentageOfBalance :: float64

text \<open>The types local to the two \<^verbatim>\<open>MarshalJSON\<close> methods. A pointer field is an
  option, \<^term>\<open>None\<close> for \<^verbatim>\<open>nil\<close>. The two methods declare the same \<^verbatim>\<open>on\<close>;
  their \<^verbatim>\<open>param\<close> differ in the last field.\<close>

record charge =
  Customer :: string
  Amount :: int
  Currency :: string
  Card :: string
  Description :: string

record transfer =
  Recipient :: string
  Amount :: int
  PercentageOfBalance :: float64

record on =
  Weekdays :: "Weekday slice"
  DaysOfMonth :: "int slice"
  WeekdayOfMonth :: string

record charge_param =
  Every :: int
  Period :: Period
  StartDate :: "Date option"
  EndDate :: Date
  On :: "on option"
  Charge :: charge

record transfer_param =
  Every :: int
  Period :: Period
  StartDate :: "Date option"
  EndDate :: Date
  On :: "on option"
  Transfer :: transfer

subsection \<open>What \<^verbatim>\<open>json.Marshal\<close> writes for each struct\<close>

text \<open>A field tagged \<^verbatim>\<open>omitempty\<close> is left out when it is empty: a string or a
  slice of length 0, a number equal to 0, a \<^verbatim>\<open>nil\<close> pointer. A field without the
  option is always written.\<close>

definition on_json :: "on \<Rightarrow> json" where
  "on_json v = JObject
     ((if len (on.Weekdays v) = 0 then []
       else [(''weekdays'', JArray (map JString (elems (on.Weekdays v))))])
      @ (if len (on.DaysOfMonth v) = 0 then []
         else [(''days_of_month'', JArray (map JInt (elems (on.DaysOfMonth v))))])
      @ (if on.WeekdayOfMonth v = [] then []
         else [(''weekday_of_month'', JString (on.WeekdayOfMonth v))]))"

definition charge_json :: "charge \<Rightarrow> json" where
  "charge_json v = JObject
     ([(''customer'', JString (charge.Customer v)),
       (''amount'', JInt (charge.Amount v))]
      @ (if charge.Currency v = [] then [] else [(''currency'', JString (charge.Currency v))])
      @ (if charge.Card v = [] then [] else [(''card'', JString (charge.Card v))])
      @ (if charge.Description v = [] then []
         else [(''description'', JString (charge.Description v))]))"

text \<open>
  A \<^verbatim>\<open>float64\<close> that is infinite or not a number makes \<^verbatim>\<open>json.Marshal\<close> fail
  with an \<^verbatim>\<open>UnsupportedValueError\<close>. The decimal digits of a finite one are those of
  \<^verbatim>\<open>strconv\<close>, which the operations do not depend on: the printer is the parameter
  \<open>fmt\<close>.
\<close>

definition unsupported_float :: "float64 \<Rightarrow> string" where
  "unsupported_float f =
     (if math_IsNaN f then ''NaN'' else if float_sign f then ''-Inf'' else ''+Inf'')"

definition transfer_json :: "(float64 \<Rightarrow> string) \<Rightarrow> transfer \<Rightarrow> error + json" where
  "transfer_json fmt v =
     (if \<not> float_is_zero (transfer.PercentageOfBalance v)
         \<and> (math_IsInf (transfer.PercentageOfBalance v) \<or> math_IsNaN (transfer.PercentageOfBalance v))
      then Inl (UnsupportedValueError (unsupported_float (transfer.PercentageOfBalance v)))
      else Inr (JObject
        ([(''recipient'', JString (transfer.Recipient v))]
         @ (if transfer.Amount v = 0 then [] else [(''amount'', JInt (transfer.Amount v))])
         @ (if float_is_zero (transfer.PercentageOfBalance v) then []
            else [(''percentage_of_balance'', JNumber (fmt (transfer.PercentageOfBalance v)))]))))"

definition charge_param_json :: "charge_param \<Rightarrow> json" where
  "charge_param_json p = JObject
     ([(''every'', JInt (charge_param.Every p)),
       (''period'', JString (charge_param.Period p))]
      @ (case charge_param.StartDate p of
           None \<Rightarrow> []
         | Some d \<Rightarrow> [(''start_date'', JRaw (Date_MarshalJSON d))])
      @ [(''end_date'', JRaw (Date_MarshalJSON (charge_param.EndDate p)))]
      @ (case charge_param.On p of
           None \<Rightarrow> []
         | Some v \<Rightarrow> [(''on'', on_json v)])
      @ [(''charge'', charge_json (charge_param.Charge p))])"

definition transfer_param_json :: "(float64 \<Rightarrow> string) \<Rightarrow> transfer_param \<Rightarrow> error + json" where
  "transfer_param_json fmt p =
     (case transfer_json fmt (transfer_param.Transfer p) of
        Inl err \<Rightarrow> Inl err
      | Inr t \<Rightarrow> Inr (JObject
          ([(''every'', JInt (transfer_param.Every p)),
            (''period'', JString (transfer_param.Period p))]
           @ (case transfer_param.StartDate p of
                None \<Rightarrow> []
              | Some d \<Rightarrow> [(''start_date'', JRaw (Date_MarshalJSON d))])
           @ [(''end_date'', JRaw (Date_MarshalJSON (transfer_param.EndDate p)))]
           @ (case transfer_param.On p of
                None \<Rightarrow> []
              | Some v \<Rightarrow> [(''on'', on_json v)])
           @ [(''transfer'', t)])))"

text \<open>The two results of a Go call \<^verbatim>\<open>([]byte, error)\<close>: the bytes, \<^term>\<open>None\<close> for
  a \<^verbatim>\<open>nil\<close> slice, and the error, \<^term>\<open>None\<close> for \<^verbatim>\<open>nil\<close>.\<close>

type_synonym marshal_result = "string option \<times> error option"

definition json_Marshal :: "error + json \<Rightarrow> marshal_result" where
  "json_Marshal d = (case d of Inl err \<Rightarrow> (None, Some err) | Inr j \<Rightarrow> (Some (encode j), None))"

subsection \<open>\<^verbatim>\<open>CreateChargeSchedule.MarshalJSON\<close>\<close>

text \<open>The method up to its last line: the value \<^verbatim>\<open>p\<close> handed to
  \<^verbatim>\<open>json.Marshal\<close>, or the error of an early return.\<close>

definition CreateChargeSchedule_param :: "CreateChargeSchedule \<Rightarrow> error + charge_param" where
  "CreateChargeSchedule_param req =
     (let p = \<lparr>charge_param.Every = CreateChargeSchedule.Every req,
                charge_param.Period = CreateChargeSchedule.Period req,
                charge_param.StartDate = None,
                charge_param.EndDate = zero_Date,
                charge_param.On = None,
                charge_param.Charge =
                  \<lparr>charge.Customer = CreateChargeSchedule.Customer req,
                   charge.Amount = CreateChargeSchedule.Amount req,
                   charge.Currency = CreateChargeSchedule.Currency req,
                   charge.Card = CreateChargeSchedule.Card req,
                   charge.Description = CreateChargeSchedule.Description req\<rparr>\<rparr>
      in
      case (if CreateChargeSchedule.StartDate req \<noteq> [] then
              (case time_Parse (CreateChargeSchedule.StartDate req) of
                 Inl err \<Rightarrow> Inl err
               | Inr startDate \<Rightarrow> Inr (p\<lparr>charge_param.StartDate := Some startDate\<rparr>))
            else Inr p) of
        Inl err \<Rightarrow> Inl err
      | Inr p \<Rightarrow>
          (case (if CreateChargeSchedule.EndDate req \<noteq> [] then
                   (case time_Parse (CreateChargeSchedule.EndDate req) of
                      Inl err \<Rightarrow> Inl err
                    | Inr endDate \<Rightarrow> Inr (p\<lparr>charge_param.EndDate := endDate\<rparr>))
                 else Inr p) of
             Inl err \<Rightarrow> Inl err
           | Inr p \<Rightarrow>
               Inr (if charge_param.Period p = ''week'' then
                      p\<lparr>charge_param.On := Some
                         \<lparr>on.Weekdays = CreateChargeSchedule.Weekdays req,
                          on.DaysOfMonth = None,
                          on.WeekdayOfMonth = []\<rparr>\<rparr>
                    else if charge_param.Period p = ''month''
                            \<and> CreateChargeSchedule.DaysOfMonth req \<noteq> None then
                      p\<lparr>charge_param.On := Some
                         \<lparr>on.Weekdays = None,
                          on.DaysOfMonth = CreateChargeSchedule.DaysOfMonth req,
                          on.WeekdayOfMonth = []\<rparr>\<rparr>
                    else if charge_param.Period p = ''month''
                            \<and> CreateChargeSchedule.WeekdayOfMonth req \<noteq> [] then
                      p\<lparr>charge_param.On := Some
                         \<lparr>on.Weekdays = None,
                          on.DaysOfMonth = None,
                          on.WeekdayOfMonth = CreateChargeSchedule.WeekdayOfMonth req\<rparr>\<rparr>
                    else p)))"

definition CreateChargeSchedule_MarshalJSON :: "CreateChargeSchedule \<Rightarrow> marshal_result" where
  "CreateChargeSchedule_MarshalJSON req =
     (case CreateChargeSchedule_param req of
        Inl err \<Rightarrow> (None, Some err)
      | Inr p \<Rightarrow> json_Marshal (Inr (charge_param_json p)))"

subsection \<open>\<^verbatim>\<open>CreateTransferSchedule.MarshalJSON\<close>\<close>

definition CreateTransferSchedule_param :: "CreateTransferSchedule \<Rightarrow> error + transfer_param" where
  "CreateTransferSchedule_param req =
     (let p = \<lparr>transfer_param.Every = CreateTransferSchedule.Every req,
                transfer_param.Period = CreateTransferSchedule.Period req,
                transfer_param.StartDate = None,
                transfer_param.EndDate = zero_Date,
                transfer_param.On = None,
                transfer_param.Transfer =
                  \<lparr>transfer.Recipient = CreateTransferSchedule.Recipient req,
                   transfer.Amount = CreateTransferSchedule.Amount req,
                   transfer.PercentageOfBalance = CreateTransferSchedule.PercentageOfBalance req\<rparr>\<rparr>
      in
      case (if CreateTransferSchedule.StartDate req \<noteq> [] then
              (case time_Parse (CreateTransferSchedule.StartDate req) of
                 Inl err \<Rightarrow> Inl err
               | Inr startDate \<Rightarrow> Inr (p\<lparr>transfer_param.StartDate := Some startDate\<rparr>))
            else Inr p) of
        Inl err \<Rightarrow> Inl err
      | Inr p \<Rightarrow>
          (case (if CreateTransferSchedule.EndDate req \<noteq> [] then
                   (case time_Parse (CreateTransferSchedule.EndDate req) of
                      Inl err \<Rightarrow> Inl err
                    | Inr endDate \<Rightarrow> Inr (p\<lparr>transfer_param.EndDate := endDate\<rparr>))
                 else Inr p) of
             Inl err \<Rightarrow> Inl err
           | Inr p \<Rightarrow>
               Inr (if transfer_param.Period p = ''week'' then
                      p\<lparr>transfer_param.On := Some
                         \<lparr>on.Weekdays = CreateTransferSchedule.Weekdays req,
                          on.DaysOfMonth = None,
                          on.WeekdayOfMonth = []\<rparr>\<rparr>
                    else if transfer_param.Period p = ''month''
                            \<and> CreateTransferSchedule.DaysOfMonth req \<noteq> None then
                      p\<lparr>transfer_param.On := Some
                         \<lparr>on.Weekdays = None,
                          on.DaysOfMonth = CreateTransferSchedule.DaysOfMonth req,
                          on.WeekdayOfMonth = []\<rparr>\<rparr>
                    else if transfer_param.Period p = ''month''
                            \<and> CreateTransferSchedule.WeekdayOfMonth req \<noteq> [] then
                      p\<lparr>transfer_param.On := Some
                         \<lparr>on.Weekdays = None,
                          on.DaysOfMonth = None,
                          on.WeekdayOfMonth = CreateTransferSchedule.WeekdayOfMonth req\<rparr>\<rparr>
                    else p)))"

definition CreateTransferSchedule_MarshalJSON ::
    "(float64 \<Rightarrow> string) \<Rightarrow> CreateTransferSchedule \<Rightarrow> marshal_result" where
  "CreateTransferSchedule_MarshalJSON fmt req =
     (case CreateTransferSchedule_param req of
        Inl err \<Rightarrow> (None, Some err)
      | Inr p \<Rightarrow> json_Marshal (transfer_param_json fmt p))"

subsection \<open>The operation descriptors\<close>

text \<open>
  Modelled from the spec: \<^verbatim>\<open>internal.Op\<close> is not among the sources. The spec calls
  it a generic HTTP-operation descriptor of method, path, endpoint selector, content type
  and query values. A field that a struct literal leaves out has its zero value: the
  empty string, or \<^verbatim>\<open>nil\<close> for the values.
\<close>

datatype Endpoint = API | Vault

record Op =
  Endpoint :: Endpoint
  Method :: string
  Path :: string
  Values :: "(string \<times> string list) list option"
  ContentType :: string

record RetrieveSchedule =
  ScheduleID :: string

record DestroySchedule =
  ScheduleID :: string

definition CreateChargeSchedule_Op :: "CreateChargeSchedule \<Rightarrow> Op" where
  "CreateChargeSchedule_Op req =
     \<lparr>Endpoint = API, Method = ''POST'', Path = ''/schedules'', Values = Some [],
      ContentType = ''application/json''\<rparr>"

definition CreateTransferSchedule_Op :: "CreateTransferSchedule \<Rightarrow> Op" where
  "CreateTransferSchedule_Op req =
     \<lparr>Endpoint = API, Method = ''POST'', Path = ''/schedules'', Values = Some [],
      ContentType = ''application/json''\<rparr>"

definition RetrieveSchedule_Op :: "RetrieveSchedule \<Rightarrow> Op" where
  "RetrieveSchedule_Op req =
     \<lparr>Endpoint = API, Method = ''GET'', Path = ''/schedules/'' @ RetrieveSchedule.ScheduleID req,
      Values = None, ContentType = []\<rparr>"

definition DestroySchedule_Op :: "DestroySchedule \<Rightarrow> Op" where
  "DestroySchedule_Op req =
     \<lparr>Endpoint = API, Method = ''DELETE'', Path = ''/schedules/'' @ DestroySchedule.ScheduleID req,
      Values = None, ContentType = []\<rparr>"

section \<open>The requests of the tests\<close>

text \<open>The requests that \<^verbatim>\<open>TestCreateChargeScheduleMarshal\<close> and
  \<^verbatim>\<open>TestCreateTransferScheduleMarshal\<close> encode, in the order of the tests, and the
  zero request \<^verbatim>\<open>CreateChargeSchedule{}\<close> that \<^verbatim>\<open>TestCreateSchedule\<close> sends.
  A field that a struct literal leaves out has its zero value.\<close>

definition charge_test_day :: CreateChargeSchedule where
  "charge_test_day =
     \<lparr>CreateChargeSchedule.Every = 3,
      CreateChargeSchedule.Period = PeriodDay,
      CreateChargeSchedule.StartDate = ''2017-05-15'',
      CreateChargeSchedule.EndDate = ''2018-05-15'',
      CreateChargeSchedule.Weekdays = None,
      CreateChargeSchedule.DaysOfMonth = None,
      CreateChargeSchedule.WeekdayOfMonth = [],
      CreateChargeSchedule.Customer = ''customer_id'',
      CreateChargeSchedule.Amount = 100000,
      CreateChargeSchedule.Currency = [],
      CreateChargeSchedule.Card = [],
      CreateChargeSchedule.Description = []\<rparr>"

definition charge_test_week :: CreateChargeSchedule where
  "charge_test_week =
     \<lparr>CreateChargeSchedule.Every = 3,
      CreateChargeSchedule.Period = PeriodWeek,
      CreateChargeSchedule.StartDate = ''2017-05-15'',
      CreateChargeSchedule.EndDate = ''2018-05-15'',
      CreateChargeSchedule.Weekdays = Some [Monday, Saturday],
      CreateChargeSchedule.DaysOfMonth = None,
      CreateChargeSchedule.WeekdayOfMonth = [],
      CreateChargeSchedule.Customer = ''customer_id'',
      CreateChargeSchedule.Amount = 100000,
      CreateChargeSchedule.Currency = [],
      CreateChargeSchedule.Card = [],
      CreateChargeSchedule.Description = []\<rparr>"

definition charge_test_days_of_month :: CreateChargeSchedule where
  "charge_test_days_of_month =
     \<lparr>CreateChargeSchedule.Every = 3,
      CreateChargeSchedule.Period = PeriodMonth,
      CreateChargeSchedule.StartDate = ''2017-05-15'',
      CreateChargeSchedule.EndDate = ''2018-05-15'',
      CreateChargeSchedule.Weekdays = None,
      CreateChargeSchedule.DaysOfMonth = Some [1, 15],
      CreateChargeSchedule.WeekdayOfMonth = [],
      CreateChargeSchedule.Customer = ''customer_id'',
      CreateChargeSchedule.Amount = 100000,
      CreateChargeSchedule.Currency = [],
      CreateChargeSchedule.Card = [],
      CreateChargeSchedule.Description = []\<rparr>"

definition charge_test_weekday_of_month :: CreateChargeSchedule where
  "charge_test_weekday_of_month =
     \<lparr>CreateChargeSchedule.Every = 3,
      CreateChargeSchedule.Period = PeriodMonth,
      CreateChargeSchedule.StartDate = ''2017-05-15'',
      CreateChargeSchedule.EndDate = ''2018-05-15'',
      CreateChargeSchedule.Weekdays = None,
      CreateChargeSchedule.DaysOfMonth = None,
      CreateChargeSchedule.WeekdayOfMonth = ''last_thursday'',
      CreateChargeSchedule.Customer = ''customer_id'',
      CreateChargeSchedule.Amount = 100000,
      CreateChargeSchedule.Currency = [],
      CreateChargeSchedule.Card = [],
      CreateChargeSchedule.Description = []\<rparr>"

definition charge_zero :: CreateChargeSchedule where
  "charge_zero =
     \<lparr>CreateChargeSchedule.Every = 0,
      CreateChargeSchedule.Period = [],
      CreateChargeSchedule.StartDate = [],
      CreateChargeSchedule.EndDate = [],
      CreateChargeSchedule.Weekdays = None,
      CreateChargeSchedule.DaysOfMonth = None,
      CreateChargeSchedule.WeekdayOfMonth = [],
      CreateChargeSchedule.Customer = [],
      CreateChargeSchedule.Amount = 0,
      CreateChargeSchedule.Currency = [],
      CreateChargeSchedule.Card = [],
      CreateChargeSchedule.Description = []\<rparr>"

text \<open>The two percentages of the transfer tests are the doubles nearest to 20.35 and
  50.55, which the tests expect printed as \<^verbatim>\<open>20.35\<close> and \<^verbatim>\<open>50.55\<close>.
  \<open>tests_FormatFloat\<close> is the printer on these two values; what it prints for any
  other value stands for no digits of Go's, and no theorem depends on it.\<close>

definition float_20_35 :: float64 where
  "float_20_35 = 0x403459999999999A"

definition float_50_55 :: float64 where
  "float_50_55 = 0x4049466666666666"

definition tests_FormatFloat :: "float64 \<Rightarrow> string" where
  "tests_FormatFloat f =
     (if f = float_20_35 then ''20.35'' else if f = float_50_55 then ''50.55'' else ''?'')"

definition transfer_test_day :: CreateTransferSchedule where
  "transfer_test_day =
     \<lparr>CreateTransferSchedule.Every = 3,
      CreateTransferSchedule.Period = PeriodDay,
      CreateTransferSchedule.StartDate = ''2017-05-15'',
      CreateTransferSchedule.EndDate = ''2018-05-15'',
      CreateTransferSchedule.Weekdays = None,
      CreateTransferSchedule.DaysOfMonth = None,
      CreateTransferSchedule.WeekdayOfMonth = [],
      CreateTransferSchedule.Recipient = ''recipient_id'',
      CreateTransferSchedule.Amount = 100000,
      CreateTransferSchedule.PercentageOfBalance = 0\<rparr>"

definition transfer_test_week :: CreateTransferSchedule where
  "transfer_test_week =
     \<lparr>CreateTransferSchedule.Every = 3,
      CreateTransferSchedule.Period = PeriodWeek,
      CreateTransferSchedule.StartDate = ''2017-05-15'',
      CreateTransferSchedule.EndDate = ''2018-05-15'',
      CreateTransferSchedule.Weekdays = Some [Monday, Saturday],
      CreateTransferSchedule.DaysOfMonth = None,
      CreateTransferSchedule.WeekdayOfMonth = [],
      CreateTransferSchedule.Recipient = ''recipient_id'',
      CreateTransferSchedule.Amount = 0,
      CreateTransferSchedule.PercentageOfBalance = float_20_35\<rparr>"

definition transfer_test_days_of_month :: CreateTransferSchedule where
  "transfer_test_days_of_month =
     \<lparr>CreateTransferSchedule.Every = 3,
      CreateTransferSchedule.Period = PeriodMonth,
      CreateTransferSchedule.StartDate = ''2017-05-15'',
      CreateTransferSchedule.EndDate = ''2018-05-15'',
      CreateTransferSchedule.Weekdays = None,
      CreateTransferSchedule.DaysOfMonth = Some [1, 15],
      CreateTransferSchedule.WeekdayOfMonth = [],
      CreateTransferSchedule.Recipient = ''recipient_id'',
      CreateTransferSchedule.Amount = 100000,
      CreateTransferSchedule.PercentageOfBalance = 0\<rparr>"

definition transfer_test_weekday_of_month :: CreateTransferSchedule where
  "transfer_test_weekday_of_month =
     \<lparr>CreateTransferSchedule.Every = 3,
      CreateTransferSchedule.Period = PeriodMonth,
      CreateTransferSchedule.StartDate = ''2017-05-15'',
      CreateTransferSchedule.EndDate = ''2018-05-15'',
      CreateTransferSchedule.Weekdays = None,
      CreateTransferSchedule.DaysOfMonth = None,
      CreateTransferSchedule.WeekdayOfMonth = ''last_thursday'',
      CreateTransferSchedule.Recipient = ''recipient_id'',
      CreateTransferSchedule.Amount = 0,
      CreateTransferSchedule.PercentageOfBalance = float_50_55\<rparr>"

section \<open>Evaluating the model\<close>

lemma digits10_small [simp]: "n < 10 \<Longrightarrow> digits10 n = [digit_char n]"
  by (simp add: digits10.simps)

lemma digits10_large [simp]:
  "\<not> n < 10 \<Longrightarrow> digits10 n = digits10 (n div 10) @ [digit_char (n mod 10)]"
  by (subst digits10.simps) simp

lemma replicate_numeral: "replicate (numeral k) x = x # replicate (pred_numeral k) x"
  by (simp add: numeral_eq_Suc)

lemmas date_defs =
  time_Parse_def isDigit_def digit_val_def daysIn_def isLeap_def date_layout_def
  Date_MarshalJSON_def Format_date_def appendInt_def digit_char_def zero_Date_def
  replicate_numeral

lemmas float_defs =
  math_IsNaN_def math_IsInf_def float_is_zero_def float_exponent_def float_mantissa_def
  float_sign_def unsupported_float_def float_20_35_def float_50_55_def tests_FormatFloat_def
  math_NaN_def

lemmas json_defs =
  appendString_def htmlSafe_def strconv_Itoa_def json_Marshal_def
  on_json_def charge_json_def transfer_json_def charge_param_json_def transfer_param_json_def
  len_def elems_def object_fields_def object_keys_def object_member_def

lemmas schedule_defs =
  PeriodDay_def PeriodWeek_def PeriodMonth_def Monday_def Saturday_def
  CreateChargeSchedule_param_def CreateChargeSchedule_MarshalJSON_def
  CreateTransferSchedule_param_def CreateTransferSchedule_MarshalJSON_def

lemmas tests_defs =
  charge_test_day_def charge_test_week_def charge_test_days_of_month_def
  charge_test_weekday_of_month_def charge_zero_def
  transfer_test_day_def transfer_test_week_def transfer_test_days_of_month_def
  transfer_test_weekday_of_month_def

text \<open>A date prints as digits and hyphens, so its bytes between quotes are a JSON
  string.\<close>

lemma digit_char_digit: "n < 10 \<Longrightarrow> digit_char n \<in> date_chars"
proof -
  assume "n < 10"
  then have "n < length ''0123456789''" by simp
  then have "''0123456789'' ! n \<in> set ''0123456789''" by (rule nth_mem)
  also have "set ''0123456789'' \<subseteq> date_chars" unfolding date_chars_def by (simp add: subset_iff)
  finally show ?thesis by (simp add: digit_char_def)
qed

lemma digits10_digits: "set (digits10 n) \<subseteq> date_chars"
proof (induction n rule: digits10.induct)
  case (1 n)
  show ?case
  proof (cases "n < 10")
    case True
    then show ?thesis using digit_char_digit [of n] by simp
  next
    case False
    moreover have "digit_char (n mod 10) \<in> date_chars" by (rule digit_char_digit) simp
    ultimately show ?thesis using 1 by simp
  qed
qed

lemma appendInt_digits: "set (appendInt x w) \<subseteq> date_chars"
proof -
  have "CHR ''0'' \<in> date_chars" by (simp add: date_chars_def)
  then have "set (replicate k CHR ''0'') \<subseteq> date_chars" for k by (auto simp: set_replicate_conv_if)
  then show ?thesis using digits10_digits [of x] by (simp add: appendInt_def)
qed

lemma Format_date_chars: "set (Format_date d) \<subseteq> date_chars"
proof -
  have "CHR ''-'' \<in> date_chars" by (simp add: date_chars_def)
  then show ?thesis
    using appendInt_digits [of "year d" 4] appendInt_digits [of "month d" 2]
      appendInt_digits [of "day d" 2]
    by (simp add: Format_date_def)
qed

text \<open>The dates of the tests parse, as the civil dates they name.\<close>

lemma time_Parse_2017_05_15:
  "time_Parse ''2017-05-15'' = Inr \<lparr>year = 2017, month = 5, day = 15\<rparr>"
  by (simp add: date_defs)

lemma time_Parse_2018_05_15:
  "time_Parse ''2018-05-15'' = Inr \<lparr>year = 2018, month = 5, day = 15\<rparr>"
  by (simp add: date_defs)

lemma time_Parse_not_a_date:
  "time_Parse ''not-a-date'' = Inl (ParseError ''2006-01-02'' ''not-a-date'')"
  by (simp add: date_defs)

text \<open>The expected strings of the tests.\<close>

lemma charge_test_day_bytes:
  \<open>CreateChargeSchedule_MarshalJSON charge_test_day =
     (Some ''{"every":3,"period":"day","start_date":"2017-05-15","end_date":"2018-05-15","charge":{"customer":"customer_id","amount":100000}}'', None)\<close>
  by (simp add: tests_defs schedule_defs json_defs date_defs)

lemma charge_test_week_bytes:
  \<open>CreateChargeSchedule_MarshalJSON charge_test_week =
     (Some ''{"every":3,"period":"week","start_date":"2017-05-15","end_date":"2018-05-15","on":{"weekdays":["monday","saturday"]},"charge":{"customer":"customer_id","amount":100000}}'', None)\<close>
  by (simp add: tests_defs schedule_defs json_defs date_defs)

lemma charge_test_days_of_month_bytes:
  \<open>CreateChargeSchedule_MarshalJSON charge_test_days_of_month =
     (Some ''{"every":3,"period":"month","start_date":"2017-05-15","end_date":"2018-05-15","on":{"days_of_month":[1,15]},"charge":{"customer":"customer_id","amount":100000}}'', None)\<close>
  by (simp add: tests_defs schedule_defs json_defs date_defs)

lemma charge_test_weekday_of_month_bytes:
  \<open>CreateChargeSchedule_MarshalJSON charge_test_weekday_of_month =
     (Some ''{"every":3,"period":"month","start_date":"2017-05-15","end_date":"2018-05-15","on":{"weekday_of_month":"last_thursday"},"charge":{"customer":"customer_id","amount":100000}}'', None)\<close>
  by (simp add: tests_defs schedule_defs json_defs date_defs)

lemma transfer_test_day_bytes:
  \<open>CreateTransferSchedule_MarshalJSON tests_FormatFloat transfer_test_day =
     (Some ''{"every":3,"period":"day","start_date":"2017-05-15","end_date":"2018-05-15","transfer":{"recipient":"recipient_id","amount":100000}}'', None)\<close>
  by (simp add: tests_defs schedule_defs json_defs date_defs float_defs)

lemma transfer_test_week_bytes:
  \<open>CreateTransferSchedule_MarshalJSON tests_FormatFloat transfer_test_week =
     (Some ''{"every":3,"period":"week","start_date":"2017-05-15","end_date":"2018-05-15","on":{"weekdays":["monday","saturday"]},"transfer":{"recipient":"recipient_id","percentage_of_balance":20.35}}'', None)\<close>
  by (simp add: tests_defs schedule_defs json_defs date_defs float_defs)

lemma transfer_test_days_of_month_bytes:
  \<open>CreateTransferSchedule_MarshalJSON tests_FormatFloat transfer_test_days_of_month =
     (Some ''{"every":3,"period":"month","start_date":"2017-05-15","end_date":"2018-05-15","on":{"days_of_month":[1,15]},"transfer":{"recipient":"recipient_id","amount":100000}}'', None)\<close>
  by (simp add: tests_defs schedule_defs json_defs date_defs float_defs)

lemma transfer_test_weekday_of_month_bytes:
  \<open>CreateTransferSchedule_MarshalJSON tests_FormatFloat transfer_test_weekday_of_month =
     (Some ''{"every":3,"period":"month","start_date":"2017-05-15","end_date":"2018-05-15","on":{"weekday_of_month":"last_thursday"},"transfer":{"recipient":"recipient_id","percentage_of_balance":50.55}}'', None)\<close>
  by (simp add: tests_defs schedule_defs json_defs date_defs float_defs)

section \<open>The shape of the two methods\<close>

text \<open>A value that is infinite or not a number is not zero, so \<^verbatim>\<open>omitempty\<close> does
  not hide it from the encoder.\<close>

lemma float_zero_exponent: "float_is_zero f \<Longrightarrow> float_exponent f = 0"
proof -
  assume "float_is_zero f"
  then obtain k where k: "unat f = 2 ^ 63 * k"
    by (auto simp: float_is_zero_def mod_eq_0_iff_dvd elim: dvdE)
  have "(2::nat) ^ 63 * k div 2 ^ 52 = 2 ^ 11 * k" by simp
  then show ?thesis by (simp add: float_exponent_def k)
qed

lemma float_special_not_zero: "math_IsInf f \<or> math_IsNaN f \<Longrightarrow> \<not> float_is_zero f"
  using float_zero_exponent [of f] by (auto simp: math_IsInf_def math_IsNaN_def)

text \<open>Each method either returns at the first date that does not parse, or reaches
  \<^verbatim>\<open>json.Marshal\<close> with a \<^verbatim>\<open>param\<close> whose fields are these.\<close>

lemma charge_param_closed:
  "CreateChargeSchedule_param c =
     (if CreateChargeSchedule.StartDate c \<noteq> [] \<and> isl (time_Parse (CreateChargeSchedule.StartDate c))
      then Inl (projl (time_Parse (CreateChargeSchedule.StartDate c)))
      else if CreateChargeSchedule.EndDate c \<noteq> [] \<and> isl (time_Parse (CreateChargeSchedule.EndDate c))
      then Inl (projl (time_Parse (CreateChargeSchedule.EndDate c)))
      else Inr
        \<lparr>charge_param.Every = CreateChargeSchedule.Every c,
         charge_param.Period = CreateChargeSchedule.Period c,
         charge_param.StartDate =
           (if CreateChargeSchedule.StartDate c = [] then None
            else Some (projr (time_Parse (CreateChargeSchedule.StartDate c)))),
         charge_param.EndDate =
           (if CreateChargeSchedule.EndDate c = [] then zero_Date
            else projr (time_Parse (CreateChargeSchedule.EndDate c))),
         charge_param.On =
           (if CreateChargeSchedule.Period c = ''week'' then
              Some \<lparr>on.Weekdays = CreateChargeSchedule.Weekdays c, on.DaysOfMonth = None,
                    on.WeekdayOfMonth = []\<rparr>
            else if CreateChargeSchedule.Period c = ''month''
                    \<and> CreateChargeSchedule.DaysOfMonth c \<noteq> None then
              Some \<lparr>on.Weekdays = None, on.DaysOfMonth = CreateChargeSchedule.DaysOfMonth c,
                    on.WeekdayOfMonth = []\<rparr>
            else if CreateChargeSchedule.Period c = ''month''
                    \<and> CreateChargeSchedule.WeekdayOfMonth c \<noteq> [] then
              Some \<lparr>on.Weekdays = None, on.DaysOfMonth = None,
                    on.WeekdayOfMonth = CreateChargeSchedule.WeekdayOfMonth c\<rparr>
            else None),
         charge_param.Charge =
           \<lparr>charge.Customer = CreateChargeSchedule.Customer c,
            charge.Amount = CreateChargeSchedule.Amount c,
            charge.Currency = CreateChargeSchedule.Currency c,
            charge.Card = CreateChargeSchedule.Card c,
            charge.Description = CreateChargeSchedule.Description c\<rparr>\<rparr>)"
  unfolding CreateChargeSchedule_param_def Let_def
  by (cases "time_Parse (CreateChargeSchedule.StartDate c)";
      cases "time_Parse (CreateChargeSchedule.EndDate c)") simp_all

lemma transfer_param_closed:
  "CreateTransferSchedule_param c =
     (if CreateTransferSchedule.StartDate c \<noteq> [] \<and> isl (time_Parse (CreateTransferSchedule.StartDate c))
      then Inl (projl (time_Parse (CreateTransferSchedule.StartDate c)))
      else if CreateTransferSchedule.EndDate c \<noteq> [] \<and> isl (time_Parse (CreateTransferSchedule.EndDate c))
      then Inl (projl (time_Parse (CreateTransferSchedule.EndDate c)))
      else Inr
        \<lparr>transfer_param.Every = CreateTransferSchedule.Every c,
         transfer_param.Period = CreateTransferSchedule.Period c,
         transfer_param.StartDate =
           (if CreateTransferSchedule.StartDate c = [] then None
            else Some (projr (time_Parse (CreateTransferSchedule.StartDate c)))),
         transfer_param.EndDate =
           (if CreateTransferSchedule.EndDate c = [] then zero_Date
            else projr (time_Parse (CreateTransferSchedule.EndDate c))),
         transfer_param.On =
           (if CreateTransferSchedule.Period c = ''week'' then
              Some \<lparr>on.Weekdays = CreateTransferSchedule.Weekdays c, on.DaysOfMonth = None,
                    on.WeekdayOfMonth = []\<rparr>
            else if CreateTransferSchedule.Period c = ''month''
                    \<and> CreateTransferSchedule.DaysOfMonth c \<noteq> None then
              Some \<lparr>on.Weekdays = None, on.DaysOfMonth = CreateTransferSchedule.DaysOfMonth c,
                    on.WeekdayOfMonth = []\<rparr>
            else if CreateTransferSchedule.Period c = ''month''
                    \<and> CreateTransferSchedule.WeekdayOfMonth c \<noteq> [] then
              Some \<lparr>on.Weekdays = None, on.DaysOfMonth = None,
                    on.WeekdayOfMonth = CreateTransferSchedule.WeekdayOfMonth c\<rparr>
            else None),
         transfer_param.Transfer =
           \<lparr>transfer.Recipient = CreateTransferSchedule.Recipient c,
            transfer.Amount = CreateTransferSchedule.Amount c,
            transfer.PercentageOfBalance = CreateTransferSchedule.PercentageOfBalance c\<rparr>\<rparr>)"
  unfolding CreateTransferSchedule_param_def Let_def
  by (cases "time_Parse (CreateTransferSchedule.StartDate c)";
      cases "time_Parse (CreateTransferSchedule.EndDate c)") simp_all


lemma charge_MarshalJSON_Some:
  "CreateChargeSchedule_MarshalJSON c = (Some out, None) \<longleftrightarrow>
     (\<exists>p. CreateChargeSchedule_param c = Inr p \<and> out = encode (charge_param_json p))"
  by (auto simp: CreateChargeSchedule_MarshalJSON_def json_Marshal_def split: sum.splits)

lemma transfer_MarshalJSON_Some:
  "CreateTransferSchedule_MarshalJSON fmt t = (Some out, None) \<longleftrightarrow>
     (\<exists>p doc. CreateTransferSchedule_param t = Inr p \<and> transfer_param_json fmt p = Inr doc
        \<and> out = encode doc)"
  by (auto simp: CreateTransferSchedule_MarshalJSON_def json_Marshal_def split: sum.splits)

lemma charge_MarshalJSON_error:
  "snd (CreateChargeSchedule_MarshalJSON c) = Some e \<longleftrightarrow> CreateChargeSchedule_param c = Inl e"
  by (auto simp: CreateChargeSchedule_MarshalJSON_def json_Marshal_def split: sum.splits)

lemma transfer_MarshalJSON_error:
  "snd (CreateTransferSchedule_MarshalJSON fmt t) = Some e \<longleftrightarrow>
     CreateTransferSchedule_param t = Inl e
     \<or> (\<exists>p. CreateTransferSchedule_param t = Inr p \<and> transfer_param_json fmt p = Inl e)"
  by (auto simp: CreateTransferSchedule_MarshalJSON_def json_Marshal_def split: sum.splits)

lemma MarshalJSON_nil_bytes:
  "snd (CreateChargeSchedule_MarshalJSON c) \<noteq> None \<longleftrightarrow> fst (CreateChargeSchedule_MarshalJSON c) = None"
  "snd (CreateTransferSchedule_MarshalJSON fmt t) \<noteq> None \<longleftrightarrow>
     fst (CreateTransferSchedule_MarshalJSON fmt t) = None"
  by (auto simp: CreateChargeSchedule_MarshalJSON_def CreateTransferSchedule_MarshalJSON_def
        json_Marshal_def split: sum.splits)

text \<open>The keys of the document of a \<^verbatim>\<open>param\<close>, in the order of its fields, and
  the values under them.\<close>

lemma charge_param_json_keys:
  "object_keys (charge_param_json p) =
     [''every'', ''period'']
     @ (case charge_param.StartDate p of None \<Rightarrow> [] | Some d \<Rightarrow> [''start_date''])
     @ [''end_date'']
     @ (case charge_param.On p of None \<Rightarrow> [] | Some v \<Rightarrow> [''on''])
     @ [''charge'']"
  by (simp add: charge_param_json_def object_keys_def object_fields_def split: option.splits)

lemma charge_param_json_member:
  "object_member (charge_param_json p) ''start_date'' =
     map_option (\<lambda>d. JRaw (Date_MarshalJSON d)) (charge_param.StartDate p)"
  "object_member (charge_param_json p) ''end_date'' = Some (JRaw (Date_MarshalJSON (charge_param.EndDate p)))"
  "object_member (charge_param_json p) ''on'' = map_option on_json (charge_param.On p)"
  "object_member (charge_param_json p) ''charge'' = Some (charge_json (charge_param.Charge p))"
  by (simp_all add: charge_param_json_def object_member_def object_fields_def split: option.splits)

lemma transfer_param_json_Inl:
  "transfer_param_json fmt p = Inl e \<longleftrightarrow>
     (math_IsInf (transfer.PercentageOfBalance (transfer_param.Transfer p))
        \<or> math_IsNaN (transfer.PercentageOfBalance (transfer_param.Transfer p)))
     \<and> e = UnsupportedValueError
           (unsupported_float (transfer.PercentageOfBalance (transfer_param.Transfer p)))"
  using float_special_not_zero [of "transfer.PercentageOfBalance (transfer_param.Transfer p)"]
  by (auto simp: transfer_param_json_def transfer_json_def split: sum.splits)

lemma transfer_param_json_keys:
  "transfer_param_json fmt p = Inr doc \<Longrightarrow>
   object_keys doc =
     [''every'', ''period'']
     @ (case transfer_param.StartDate p of None \<Rightarrow> [] | Some d \<Rightarrow> [''start_date''])
     @ [''end_date'']
     @ (case transfer_param.On p of None \<Rightarrow> [] | Some v \<Rightarrow> [''on''])
     @ [''transfer'']"
  by (auto simp: transfer_param_json_def object_keys_def object_fields_def split: option.splits sum.splits)

lemma transfer_param_json_member:
  assumes "transfer_param_json fmt p = Inr doc"
  shows "object_member doc ''start_date'' =
           map_option (\<lambda>d. JRaw (Date_MarshalJSON d)) (transfer_param.StartDate p)"
    and "object_member doc ''end_date'' = Some (JRaw (Date_MarshalJSON (transfer_param.EndDate p)))"
    and "object_member doc ''on'' = map_option on_json (transfer_param.On p)"
    and "transfer_json fmt (transfer_param.Transfer p) = Inr tr \<Longrightarrow> object_member doc ''transfer'' = Some tr"
  using assms
  by (auto simp: transfer_param_json_def object_member_def object_fields_def split: option.splits sum.splits)


lemma charge_param_fields:
  assumes "CreateChargeSchedule_param c = Inr p"
  shows "charge_param.Every p = CreateChargeSchedule.Every c"
    and "charge_param.Period p = CreateChargeSchedule.Period c"
    and "charge_param.StartDate p =
           (if CreateChargeSchedule.StartDate c = [] then None
            else Some (projr (time_Parse (CreateChargeSchedule.StartDate c))))"
    and "charge_param.EndDate p =
           (if CreateChargeSchedule.EndDate c = [] then zero_Date
            else projr (time_Parse (CreateChargeSchedule.EndDate c)))"
    and "charge_param.On p =
     (if CreateChargeSchedule.Period c = ''week'' then
        Some \<lparr>on.Weekdays = CreateChargeSchedule.Weekdays c, on.DaysOfMonth = None, on.WeekdayOfMonth = []\<rparr>
      else if CreateChargeSchedule.Period c = ''month'' \<and> CreateChargeSchedule.DaysOfMonth c \<noteq> None then
        Some \<lparr>on.Weekdays = None, on.DaysOfMonth = CreateChargeSchedule.DaysOfMonth c, on.WeekdayOfMonth = []\<rparr>
      else if CreateChargeSchedule.Period c = ''month'' \<and> CreateChargeSchedule.WeekdayOfMonth c \<noteq> [] then
        Some \<lparr>on.Weekdays = None, on.DaysOfMonth = None,
              on.WeekdayOfMonth = CreateChargeSchedule.WeekdayOfMonth c\<rparr>
      else None)"
  using assms by (auto simp: charge_param_closed split: if_splits)

lemma transfer_param_fields:
  assumes "CreateTransferSchedule_param c = Inr p"
  shows "transfer_param.Every p = CreateTransferSchedule.Every c"
    and "transfer_param.Period p = CreateTransferSchedule.Period c"
    and "transfer_param.StartDate p =
           (if CreateTransferSchedule.StartDate c = [] then None
            else Some (projr (time_Parse (CreateTransferSchedule.StartDate c))))"
    and "transfer_param.EndDate p =
           (if CreateTransferSchedule.EndDate c = [] then zero_Date
            else projr (time_Parse (CreateTransferSchedule.EndDate c)))"
    and "transfer_param.On p =
     (if CreateTransferSchedule.Period c = ''week'' then
        Some \<lparr>on.Weekdays = CreateTransferSchedule.Weekdays c, on.DaysOfMonth = None, on.WeekdayOfMonth = []\<rparr>
      else if CreateTransferSchedule.Period c = ''month'' \<and> CreateTransferSchedule.DaysOfMonth c \<noteq> None then
        Some \<lparr>on.Weekdays = None, on.DaysOfMonth = CreateTransferSchedule.DaysOfMonth c, on.WeekdayOfMonth = []\<rparr>
      else if CreateTransferSchedule.Period c = ''month'' \<and> CreateTransferSchedule.WeekdayOfMonth c \<noteq> [] then
        Some \<lparr>on.Weekdays = None, on.DaysOfMonth = None,
              on.WeekdayOfMonth = CreateTransferSchedule.WeekdayOfMonth c\<rparr>
      else None)"
  using assms by (auto simp: transfer_param_closed split: if_splits)

lemma charge_param_Charge:
  "CreateChargeSchedule_param c = Inr p \<Longrightarrow>
   charge_param.Charge p =
     \<lparr>charge.Customer = CreateChargeSchedule.Customer c,
      charge.Amount = CreateChargeSchedule.Amount c,
      charge.Currency = CreateChargeSchedule.Currency c,
      charge.Card = CreateChargeSchedule.Card c,
      charge.Description = CreateChargeSchedule.Description c\<rparr>"
  by (auto simp: charge_param_closed split: if_splits)

lemma transfer_param_Transfer:
  "CreateTransferSchedule_param c = Inr p \<Longrightarrow>
   transfer_param.Transfer p =
     \<lparr>transfer.Recipient = CreateTransferSchedule.Recipient c,
      transfer.Amount = CreateTransferSchedule.Amount c,
      transfer.PercentageOfBalance = CreateTransferSchedule.PercentageOfBalance c\<rparr>"
  by (auto simp: transfer_param_closed split: if_splits)

lemma param_Inl_iff:
  "(\<exists>e. CreateChargeSchedule_param c = Inl e) \<longleftrightarrow>
     CreateChargeSchedule.StartDate c \<noteq> [] \<and> isl (time_Parse (CreateChargeSchedule.StartDate c))
     \<or> CreateChargeSchedule.EndDate c \<noteq> [] \<and> isl (time_Parse (CreateChargeSchedule.EndDate c))"
  "(\<exists>e. CreateTransferSchedule_param t = Inl e) \<longleftrightarrow>
     CreateTransferSchedule.StartDate t \<noteq> [] \<and> isl (time_Parse (CreateTransferSchedule.StartDate t))
     \<or> CreateTransferSchedule.EndDate t \<noteq> [] \<and> isl (time_Parse (CreateTransferSchedule.EndDate t))"
  by (auto simp: charge_param_closed transfer_param_closed)






section \<open>The claims\<close>

text \<open>
  A claim about the JSON output is stated of the document that \<^verbatim>\<open>MarshalJSON\<close>
  hands to the encoder: whenever the method returns bytes, they are the encoding of the
  document of the \<^verbatim>\<open>param\<close> it built, and the claim is a property of that document.
\<close>

subsection \<open>C5: a day period has no selector\<close>

text \<open>
  C5. For every \<^verbatim>\<open>CreateChargeSchedule\<close> or \<^verbatim>\<open>CreateTransferSchedule\<close> request
  with period \<^verbatim>\<open>day\<close>, the JSON output of \<^verbatim>\<open>MarshalJSON\<close> has no key \<^verbatim>\<open>on\<close>,
  whatever the fields \<^verbatim>\<open>Weekdays\<close>, \<^verbatim>\<open>DaysOfMonth\<close> and \<^verbatim>\<open>WeekdayOfMonth\<close>
  hold.
\<close>

theorem day_period_omits_on:
  "(CreateChargeSchedule.Period c = ''day''
      \<and> CreateChargeSchedule_MarshalJSON c = (Some out, None)
    \<longrightarrow> (\<exists>p. CreateChargeSchedule_param c = Inr p \<and> out = encode (charge_param_json p)
            \<and> ''on'' \<notin> set (object_keys (charge_param_json p))))
   \<and> (CreateTransferSchedule.Period t = ''day''
      \<and> CreateTransferSchedule_MarshalJSON fmt t = (Some out', None)
    \<longrightarrow> (\<exists>p doc. CreateTransferSchedule_param t = Inr p \<and> transfer_param_json fmt p = Inr doc
            \<and> out' = encode doc \<and> ''on'' \<notin> set (object_keys doc)))"
proof (intro conjI impI)
  assume a: "CreateChargeSchedule.Period c = ''day''
      \<and> CreateChargeSchedule_MarshalJSON c = (Some out, None)"
  then obtain p where p: "CreateChargeSchedule_param c = Inr p" "out = encode (charge_param_json p)"
    using charge_MarshalJSON_Some by blast
  have "charge_param.On p = None"
    using a by (simp add: charge_param_fields(5) [OF p(1)])
  then have "''on'' \<notin> set (object_keys (charge_param_json p))"
    by (simp add: charge_param_json_keys split: option.splits)
  with p show "\<exists>p. CreateChargeSchedule_param c = Inr p \<and> out = encode (charge_param_json p)
            \<and> ''on'' \<notin> set (object_keys (charge_param_json p))"
    by blast
next
  assume a: "CreateTransferSchedule.Period t = ''day''
      \<and> CreateTransferSchedule_MarshalJSON fmt t = (Some out', None)"
  then obtain p doc where p: "CreateTransferSchedule_param t = Inr p"
      "transfer_param_json fmt p = Inr doc" "out' = encode doc"
    using transfer_MarshalJSON_Some by blast
  have "transfer_param.On p = None"
    using a by (simp add: transfer_param_fields(5) [OF p(1)])
  then have "''on'' \<notin> set (object_keys doc)"
    by (simp add: transfer_param_json_keys [OF p(2)] split: option.splits)
  with p show "\<exists>p doc. CreateTransferSchedule_param t = Inr p \<and> transfer_param_json fmt p = Inr doc
            \<and> out' = encode doc \<and> ''on'' \<notin> set (object_keys doc)"
    by blast
qed

theorem day_period_omits_on_witness:
  "CreateChargeSchedule.Period (charge_test_day\<lparr>CreateChargeSchedule.Weekdays := Some [Monday]\<rparr>) = ''day''
   \<and> (\<exists>p. CreateChargeSchedule_param (charge_test_day\<lparr>CreateChargeSchedule.Weekdays := Some [Monday]\<rparr>) = Inr p
          \<and> ''on'' \<notin> set (object_keys (charge_param_json p)))
   \<and> CreateTransferSchedule.Period transfer_test_day = ''day''
   \<and> (\<exists>p doc. CreateTransferSchedule_param transfer_test_day = Inr p
          \<and> transfer_param_json tests_FormatFloat p = Inr doc \<and> ''on'' \<notin> set (object_keys doc))"
proof -
  let ?c = "charge_test_day\<lparr>CreateChargeSchedule.Weekdays := Some [Monday]\<rparr>"
  have c: "CreateChargeSchedule_MarshalJSON ?c = CreateChargeSchedule_MarshalJSON charge_test_day"
    by (simp add: tests_defs schedule_defs date_defs)
  have 1: "CreateChargeSchedule.Period ?c = ''day''"
    by (simp add: tests_defs schedule_defs)
  have 2: "CreateTransferSchedule.Period transfer_test_day = ''day''"
    by (simp add: tests_defs schedule_defs)
  obtain b where m: "CreateChargeSchedule_MarshalJSON ?c = (Some b, None)"
    using c charge_test_day_bytes by simp
  obtain b' where m': "CreateTransferSchedule_MarshalJSON tests_FormatFloat transfer_test_day = (Some b', None)"
    using transfer_test_day_bytes by simp
  show ?thesis
    using day_period_omits_on [of ?c b transfer_test_day tests_FormatFloat b'] 1 2 m m'
    by blast
qed

subsection \<open>C1: days of month before weekday of month\<close>





subsection \<open>C10: a list of days that is empty but not \<^verbatim>\<open>nil\<close>\<close>





subsection \<open>C4: the selector of a week period\<close>

text \<open>
  C4 as stated: for every request with period \<^verbatim>\<open>week\<close> the output has an \<^verbatim>\<open>on\<close>
  object carrying a \<^verbatim>\<open>weekdays\<close> key equal to the given list of weekdays, also when
  that list is empty. It fails for an empty list: the field \<^verbatim>\<open>weekdays\<close> is tagged
  \<^verbatim>\<open>omitempty\<close>, so the second request of the tests with its weekdays emptied
  encodes with \<^verbatim>\<open>"on":{}\<close>.
\<close>

theorem week_empty_weekdays_counterexample:
  \<open>CreateChargeSchedule.Period (charge_test_week\<lparr>CreateChargeSchedule.Weekdays := Some []\<rparr>) = ''week''
   \<and> CreateChargeSchedule_MarshalJSON (charge_test_week\<lparr>CreateChargeSchedule.Weekdays := Some []\<rparr>) =
     (Some ''{"every":3,"period":"week","start_date":"2017-05-15","end_date":"2018-05-15","on":{},"charge":{"customer":"customer_id","amount":100000}}'', None)
   \<and> object_member
        (charge_param_json (projr (CreateChargeSchedule_param
           (charge_test_week\<lparr>CreateChargeSchedule.Weekdays := Some []\<rparr>)))) ''on'' = Some (JObject [])
   \<and> object_keys (JObject []) = []\<close>
  by (simp add: tests_defs schedule_defs json_defs date_defs)

text \<open>
  C4, amended. For every \<^verbatim>\<open>CreateChargeSchedule\<close> or \<^verbatim>\<open>CreateTransferSchedule\<close>
  request with period \<^verbatim>\<open>week\<close>, the output of \<^verbatim>\<open>MarshalJSON\<close> always has an
  \<^verbatim>\<open>on\<close> object; when the list of weekdays has an element the object has the one key
  \<^verbatim>\<open>weekdays\<close>, holding the list, and when the list is \<^verbatim>\<open>nil\<close> or empty the object
  is empty.
\<close>

theorem week_period_on_object:
  "(CreateChargeSchedule.Period c = ''week''
      \<and> CreateChargeSchedule_MarshalJSON c = (Some out, None)
    \<longrightarrow> (\<exists>p v. CreateChargeSchedule_param c = Inr p \<and> out = encode (charge_param_json p)
            \<and> object_member (charge_param_json p) ''on'' = Some v
            \<and> (if elems (CreateChargeSchedule.Weekdays c) = [] then v = JObject []
                else object_keys v = [''weekdays'']
                  \<and> object_member v ''weekdays'' =
                      Some (JArray (map JString (elems (CreateChargeSchedule.Weekdays c)))))))
   \<and> (CreateTransferSchedule.Period t = ''week''
      \<and> CreateTransferSchedule_MarshalJSON fmt t = (Some out', None)
    \<longrightarrow> (\<exists>p doc v. CreateTransferSchedule_param t = Inr p \<and> transfer_param_json fmt p = Inr doc
            \<and> out' = encode doc
            \<and> object_member doc ''on'' = Some v
            \<and> (if elems (CreateTransferSchedule.Weekdays t) = [] then v = JObject []
                else object_keys v = [''weekdays'']
                  \<and> object_member v ''weekdays'' =
                      Some (JArray (map JString (elems (CreateTransferSchedule.Weekdays t)))))))"
proof (intro conjI impI)
  assume a: "CreateChargeSchedule.Period c = ''week''
      \<and> CreateChargeSchedule_MarshalJSON c = (Some out, None)"
  then obtain p where p: "CreateChargeSchedule_param c = Inr p" "out = encode (charge_param_json p)"
    using charge_MarshalJSON_Some by blast
  define v where "v = on_json \<lparr>on.Weekdays = CreateChargeSchedule.Weekdays c,
    on.DaysOfMonth = None, on.WeekdayOfMonth = []\<rparr>"
  have "charge_param.On p = Some \<lparr>on.Weekdays = CreateChargeSchedule.Weekdays c,
    on.DaysOfMonth = None, on.WeekdayOfMonth = []\<rparr>"
    using a by (simp add: charge_param_fields(5) [OF p(1)])
  then have 1: "object_member (charge_param_json p) ''on'' = Some v"
    by (simp add: charge_param_json_member v_def)
  have 2: "if elems (CreateChargeSchedule.Weekdays c) = [] then v = JObject []
           else object_keys v = [''weekdays'']
             \<and> object_member v ''weekdays'' =
                 Some (JArray (map JString (elems (CreateChargeSchedule.Weekdays c))))"
    by (simp add: v_def on_json_def len_def elems_def object_keys_def object_member_def
        object_fields_def split: option.splits)
  from p 1 2 show "\<exists>p v. CreateChargeSchedule_param c = Inr p \<and> out = encode (charge_param_json p)
            \<and> object_member (charge_param_json p) ''on'' = Some v
            \<and> (if elems (CreateChargeSchedule.Weekdays c) = [] then v = JObject []
                else object_keys v = [''weekdays'']
                  \<and> object_member v ''weekdays'' =
                      Some (JArray (map JString (elems (CreateChargeSchedule.Weekdays c)))))"
    by blast
next
  assume a: "CreateTransferSchedule.Period t = ''week''
      \<and> CreateTransferSchedule_MarshalJSON fmt t = (Some out', None)"
  then obtain p doc where p: "CreateTransferSchedule_param t = Inr p"
      "transfer_param_json fmt p = Inr doc" "out' = encode doc"
    using transfer_MarshalJSON_Some by blast
  define v where "v = on_json \<lparr>on.Weekdays = CreateTransferSchedule.Weekdays t,
    on.DaysOfMonth = None, on.WeekdayOfMonth = []\<rparr>"
  have "transfer_param.On p = Some \<lparr>on.Weekdays = CreateTransferSchedule.Weekdays t,
    on.DaysOfMonth = None, on.WeekdayOfMonth = []\<rparr>"
    using a by (simp add: transfer_param_fields(5) [OF p(1)])
  then have 1: "object_member doc ''on'' = Some v"
    by (simp add: transfer_param_json_member(3) [OF p(2)] v_def)
  have 2: "if elems (CreateTransferSchedule.Weekdays t) = [] then v = JObject []
           else object_keys v = [''weekdays'']
             \<and> object_member v ''weekdays'' =
                 Some (JArray (map JString (elems (CreateTransferSchedule.Weekdays t))))"
    by (simp add: v_def on_json_def len_def elems_def object_keys_def object_member_def
        object_fields_def split: option.splits)
  from p 1 2 show "\<exists>p doc v. CreateTransferSchedule_param t = Inr p \<and> transfer_param_json fmt p = Inr doc
            \<and> out' = encode doc
            \<and> object_member doc ''on'' = Some v
            \<and> (if elems (CreateTransferSchedule.Weekdays t) = [] then v = JObject []
                else object_keys v = [''weekdays'']
                  \<and> object_member v ''weekdays'' =
                      Some (JArray (map JString (elems (CreateTransferSchedule.Weekdays t)))))"
    by blast
qed

theorem week_period_on_object_witness:
  "(\<exists>p v. CreateChargeSchedule_param charge_test_week = Inr p
        \<and> object_member (charge_param_json p) ''on'' = Some v
        \<and> object_keys v = [''weekdays'']
        \<and> object_member v ''weekdays'' = Some (JArray [JString ''monday'', JString ''saturday'']))
   \<and> (\<exists>p doc v. CreateTransferSchedule_param transfer_test_week = Inr p
        \<and> transfer_param_json tests_FormatFloat p = Inr doc
        \<and> object_member doc ''on'' = Some v
        \<and> object_keys v = [''weekdays'']
        \<and> object_member v ''weekdays'' = Some (JArray [JString ''monday'', JString ''saturday'']))"
proof -
  have 1: "CreateChargeSchedule.Period charge_test_week = ''week''"
    "elems (CreateChargeSchedule.Weekdays charge_test_week) = [''monday'', ''saturday'']"
    by (simp_all add: tests_defs schedule_defs elems_def)
  have 2: "CreateTransferSchedule.Period transfer_test_week = ''week''"
    "elems (CreateTransferSchedule.Weekdays transfer_test_week) = [''monday'', ''saturday'']"
    by (simp_all add: tests_defs schedule_defs elems_def)
  obtain b where m: "CreateChargeSchedule_MarshalJSON charge_test_week = (Some b, None)"
    using charge_test_week_bytes by simp
  obtain b' where m': "CreateTransferSchedule_MarshalJSON tests_FormatFloat transfer_test_week = (Some b', None)"
    using transfer_test_week_bytes by simp
  have 3: "map JString [''monday'', ''saturday''] = [JString ''monday'', JString ''saturday'']"
    "[''monday'', ''saturday''] \<noteq> []"
    by simp_all
  from week_period_on_object [of charge_test_week b transfer_test_week tests_FormatFloat b'] m m'
  show ?thesis
    unfolding 1 2 3 by simp blast
qed

subsection \<open>C3: the fields of the action object\<close>

text \<open>
  C3 as stated: the nested action object (\<^verbatim>\<open>charge\<close> or \<^verbatim>\<open>transfer\<close>) leaves out
  every field holding its zero value; in particular an empty customer or recipient and a
  zero amount never appear. It fails: in \<^verbatim>\<open>charge\<close> the fields \<^verbatim>\<open>customer\<close> and
  \<^verbatim>\<open>amount\<close> carry no \<^verbatim>\<open>omitempty\<close>, and the zero request of
  \<^verbatim>\<open>TestCreateSchedule\<close> encodes with both.
\<close>

theorem zero_charge_fields_counterexample:
  \<open>CreateChargeSchedule.Customer charge_zero = []
   \<and> CreateChargeSchedule.Amount charge_zero = 0
   \<and> CreateChargeSchedule_MarshalJSON charge_zero =
     (Some ''{"every":0,"period":"","end_date":"0001-01-01","charge":{"customer":"","amount":0}}'', None)
   \<and> object_keys (charge_json (charge_param.Charge (projr (CreateChargeSchedule_param charge_zero))))
       = [''customer'', ''amount'']\<close>
  by (simp add: tests_defs schedule_defs json_defs date_defs)

text \<open>
  C3, amended. For every request, the nested action object leaves out exactly the fields
  tagged \<^verbatim>\<open>omitempty\<close> that hold their zero value: an empty currency, card or
  description of a charge, a zero amount or a zero percentage of balance of a transfer.
  The customer and the amount of a charge and the recipient of a transfer are always
  written.
\<close>

theorem action_object_fields:
  "(CreateChargeSchedule_MarshalJSON c = (Some out, None)
    \<longrightarrow> (\<exists>p v. CreateChargeSchedule_param c = Inr p \<and> out = encode (charge_param_json p)
            \<and> object_member (charge_param_json p) ''charge'' = Some v
            \<and> object_keys v =
                [''customer'', ''amount'']
                @ (if CreateChargeSchedule.Currency c = [] then [] else [''currency''])
                @ (if CreateChargeSchedule.Card c = [] then [] else [''card''])
                @ (if CreateChargeSchedule.Description c = [] then [] else [''description''])))
   \<and> (CreateTransferSchedule_MarshalJSON fmt t = (Some out', None)
    \<longrightarrow> (\<exists>p doc v. CreateTransferSchedule_param t = Inr p \<and> transfer_param_json fmt p = Inr doc
            \<and> out' = encode doc
            \<and> object_member doc ''transfer'' = Some v
            \<and> object_keys v =
                [''recipient'']
                @ (if CreateTransferSchedule.Amount t = 0 then [] else [''amount''])
                @ (if float_is_zero (CreateTransferSchedule.PercentageOfBalance t) then []
                   else [''percentage_of_balance''])))"
proof (intro conjI impI)
  assume "CreateChargeSchedule_MarshalJSON c = (Some out, None)"
  then obtain p where p: "CreateChargeSchedule_param c = Inr p" "out = encode (charge_param_json p)"
    using charge_MarshalJSON_Some by blast
  have 1: "object_member (charge_param_json p) ''charge'' = Some (charge_json (charge_param.Charge p))"
    by (simp add: charge_param_json_member)
  have 2: "object_keys (charge_json (charge_param.Charge p)) =
      [''customer'', ''amount'']
      @ (if CreateChargeSchedule.Currency c = [] then [] else [''currency''])
      @ (if CreateChargeSchedule.Card c = [] then [] else [''card''])
      @ (if CreateChargeSchedule.Description c = [] then [] else [''description''])"
    by (simp add: charge_param_Charge [OF p(1)] charge_json_def object_keys_def object_fields_def)
  from p 1 2 show "\<exists>p v. CreateChargeSchedule_param c = Inr p \<and> out = encode (charge_param_json p)
            \<and> object_member (charge_param_json p) ''charge'' = Some v
            \<and> object_keys v =
                [''customer'', ''amount'']
                @ (if CreateChargeSchedule.Currency c = [] then [] else [''currency''])
                @ (if CreateChargeSchedule.Card c = [] then [] else [''card''])
                @ (if CreateChargeSchedule.Description c = [] then [] else [''description''])"
    by blast
next
  assume "CreateTransferSchedule_MarshalJSON fmt t = (Some out', None)"
  then obtain p doc where p: "CreateTransferSchedule_param t = Inr p"
      "transfer_param_json fmt p = Inr doc" "out' = encode doc"
    using transfer_MarshalJSON_Some by blast
  from p(2) obtain v where v: "transfer_json fmt (transfer_param.Transfer p) = Inr v"
    by (auto simp: transfer_param_json_def split: sum.splits)
  have 1: "object_member doc ''transfer'' = Some v"
    using transfer_param_json_member(4) [OF p(2) v] .
  have 2: "object_keys v =
      [''recipient'']
      @ (if CreateTransferSchedule.Amount t = 0 then [] else [''amount''])
      @ (if float_is_zero (CreateTransferSchedule.PercentageOfBalance t) then []
         else [''percentage_of_balance''])"
    using v by (auto simp: transfer_param_Transfer [OF p(1)] transfer_json_def object_keys_def
        object_fields_def split: if_splits)
  from p 1 2 show "\<exists>p doc v. CreateTransferSchedule_param t = Inr p \<and> transfer_param_json fmt p = Inr doc
            \<and> out' = encode doc
            \<and> object_member doc ''transfer'' = Some v
            \<and> object_keys v =
                [''recipient'']
                @ (if CreateTransferSchedule.Amount t = 0 then [] else [''amount''])
                @ (if float_is_zero (CreateTransferSchedule.PercentageOfBalance t) then []
                   else [''percentage_of_balance''])"
    by blast
qed

theorem action_object_fields_witness:
  "(\<exists>p v. CreateChargeSchedule_param charge_test_day = Inr p
        \<and> object_member (charge_param_json p) ''charge'' = Some v
        \<and> object_keys v = [''customer'', ''amount''])
   \<and> (\<exists>p doc v. CreateTransferSchedule_param transfer_test_week = Inr p
        \<and> transfer_param_json tests_FormatFloat p = Inr doc
        \<and> object_member doc ''transfer'' = Some v
        \<and> object_keys v = [''recipient'', ''percentage_of_balance''])"
proof -
  have 1: "CreateChargeSchedule.Currency charge_test_day = []"
    "CreateChargeSchedule.Card charge_test_day = []"
    "CreateChargeSchedule.Description charge_test_day = []"
    by (simp_all add: tests_defs)
  have 2: "CreateTransferSchedule.Amount transfer_test_week = 0"
    "\<not> float_is_zero (CreateTransferSchedule.PercentageOfBalance transfer_test_week)"
    by (simp_all add: tests_defs float_defs)
  obtain b where m: "CreateChargeSchedule_MarshalJSON charge_test_day = (Some b, None)"
    using charge_test_day_bytes by simp
  obtain b' where m': "CreateTransferSchedule_MarshalJSON tests_FormatFloat transfer_test_week = (Some b', None)"
    using transfer_test_week_bytes by simp
  from action_object_fields [of charge_test_day b tests_FormatFloat transfer_test_week b'] m m'
  show ?thesis
    unfolding 1 using 2 by simp blast
qed

subsection \<open>C2: when encoding fails\<close>

text \<open>
  C2 as stated: for every request \<^verbatim>\<open>MarshalJSON\<close> returns an error if and only if a
  non-empty \<^verbatim>\<open>StartDate\<close> or \<^verbatim>\<open>EndDate\<close> does not parse as a date, and a date that
  does not parse is the only way encoding fails. It fails for a transfer: the first
  request of the transfer tests, whose dates parse, with a percentage of balance that is
  not a number makes \<^verbatim>\<open>json.Marshal\<close> return an \<^verbatim>\<open>UnsupportedValueError\<close>.
\<close>

theorem transfer_NaN_counterexample:
  "\<not> isl (time_Parse (CreateTransferSchedule.StartDate
        (transfer_test_day\<lparr>CreateTransferSchedule.PercentageOfBalance := math_NaN\<rparr>)))
   \<and> \<not> isl (time_Parse (CreateTransferSchedule.EndDate
        (transfer_test_day\<lparr>CreateTransferSchedule.PercentageOfBalance := math_NaN\<rparr>)))
   \<and> CreateTransferSchedule_MarshalJSON tests_FormatFloat
        (transfer_test_day\<lparr>CreateTransferSchedule.PercentageOfBalance := math_NaN\<rparr>) =
       (None, Some (UnsupportedValueError ''NaN''))"
  by (simp add: tests_defs schedule_defs json_defs date_defs float_defs)

text \<open>
  C2, amended. For every \<^verbatim>\<open>CreateChargeSchedule\<close> request \<^verbatim>\<open>MarshalJSON\<close> returns
  an error if and only if a non-empty \<^verbatim>\<open>StartDate\<close> or \<^verbatim>\<open>EndDate\<close> does not parse
  in the date-only layout; for every \<^verbatim>\<open>CreateTransferSchedule\<close> request, if and
  only if such a date does not parse or \<^verbatim>\<open>PercentageOfBalance\<close> is infinite or not a
  number. In both, an error is returned exactly when the returned bytes are \<^verbatim>\<open>nil\<close>.
\<close>

theorem MarshalJSON_failure_modes:
  "(snd (CreateChargeSchedule_MarshalJSON c) \<noteq> None \<longleftrightarrow>
      CreateChargeSchedule.StartDate c \<noteq> [] \<and> isl (time_Parse (CreateChargeSchedule.StartDate c))
      \<or> CreateChargeSchedule.EndDate c \<noteq> [] \<and> isl (time_Parse (CreateChargeSchedule.EndDate c)))
   \<and> (snd (CreateChargeSchedule_MarshalJSON c) \<noteq> None \<longleftrightarrow>
      fst (CreateChargeSchedule_MarshalJSON c) = None)
   \<and> (snd (CreateTransferSchedule_MarshalJSON fmt t) \<noteq> None \<longleftrightarrow>
      CreateTransferSchedule.StartDate t \<noteq> [] \<and> isl (time_Parse (CreateTransferSchedule.StartDate t))
      \<or> CreateTransferSchedule.EndDate t \<noteq> [] \<and> isl (time_Parse (CreateTransferSchedule.EndDate t))
      \<or> math_IsNaN (CreateTransferSchedule.PercentageOfBalance t)
      \<or> math_IsInf (CreateTransferSchedule.PercentageOfBalance t))
   \<and> (snd (CreateTransferSchedule_MarshalJSON fmt t) \<noteq> None \<longleftrightarrow>
      fst (CreateTransferSchedule_MarshalJSON fmt t) = None)"
proof (intro conjI)
  have "snd (CreateChargeSchedule_MarshalJSON c) \<noteq> None \<longleftrightarrow> (\<exists>e. CreateChargeSchedule_param c = Inl e)"
    using charge_MarshalJSON_error [of c] by auto
  then show "snd (CreateChargeSchedule_MarshalJSON c) \<noteq> None \<longleftrightarrow>
      CreateChargeSchedule.StartDate c \<noteq> [] \<and> isl (time_Parse (CreateChargeSchedule.StartDate c))
      \<or> CreateChargeSchedule.EndDate c \<noteq> [] \<and> isl (time_Parse (CreateChargeSchedule.EndDate c))"
    by (simp only: param_Inl_iff(1))
next
  show "snd (CreateChargeSchedule_MarshalJSON c) \<noteq> None \<longleftrightarrow>
      fst (CreateChargeSchedule_MarshalJSON c) = None"
    by (rule MarshalJSON_nil_bytes(1))
next
  show "snd (CreateTransferSchedule_MarshalJSON fmt t) \<noteq> None \<longleftrightarrow>
      fst (CreateTransferSchedule_MarshalJSON fmt t) = None"
    by (rule MarshalJSON_nil_bytes(2))
next
  let ?f = "CreateTransferSchedule.PercentageOfBalance t"
  let ?dates = "CreateTransferSchedule.StartDate t \<noteq> [] \<and> isl (time_Parse (CreateTransferSchedule.StartDate t))
      \<or> CreateTransferSchedule.EndDate t \<noteq> [] \<and> isl (time_Parse (CreateTransferSchedule.EndDate t))"
  have d: "(\<exists>e. CreateTransferSchedule_param t = Inl e) \<longleftrightarrow> ?dates"
    by (rule param_Inl_iff(2))
  have r: "(\<exists>p. CreateTransferSchedule_param t = Inr p) \<longleftrightarrow> \<not> ?dates"
    using d by (cases "CreateTransferSchedule_param t") auto
  have j: "(\<exists>e. transfer_param_json fmt p = Inl e) \<longleftrightarrow> math_IsInf ?f \<or> math_IsNaN ?f"
    if "CreateTransferSchedule_param t = Inr p" for p
    by (simp add: transfer_param_json_Inl transfer_param_Transfer [OF that])
  have "snd (CreateTransferSchedule_MarshalJSON fmt t) \<noteq> None \<longleftrightarrow>
      (\<exists>e. CreateTransferSchedule_param t = Inl e)
      \<or> (\<exists>p. CreateTransferSchedule_param t = Inr p \<and> (\<exists>e. transfer_param_json fmt p = Inl e))"
    using transfer_MarshalJSON_error [of fmt t] by auto
  also have "\<dots> \<longleftrightarrow> ?dates \<or> (\<not> ?dates \<and> (math_IsInf ?f \<or> math_IsNaN ?f))"
    using d r j by metis
  finally show "snd (CreateTransferSchedule_MarshalJSON fmt t) \<noteq> None \<longleftrightarrow>
      CreateTransferSchedule.StartDate t \<noteq> [] \<and> isl (time_Parse (CreateTransferSchedule.StartDate t))
      \<or> CreateTransferSchedule.EndDate t \<noteq> [] \<and> isl (time_Parse (CreateTransferSchedule.EndDate t))
      \<or> math_IsNaN ?f \<or> math_IsInf ?f"
    by blast
qed

theorem MarshalJSON_failure_modes_witness:
  "isl (time_Parse ''not-a-date'')
   \<and> snd (CreateChargeSchedule_MarshalJSON
        (charge_test_day\<lparr>CreateChargeSchedule.StartDate := ''not-a-date''\<rparr>)) \<noteq> None
   \<and> fst (CreateChargeSchedule_MarshalJSON
        (charge_test_day\<lparr>CreateChargeSchedule.StartDate := ''not-a-date''\<rparr>)) = None
   \<and> snd (CreateTransferSchedule_MarshalJSON tests_FormatFloat
        (transfer_test_day\<lparr>CreateTransferSchedule.EndDate := ''not-a-date''\<rparr>)) \<noteq> None
   \<and> fst (CreateTransferSchedule_MarshalJSON tests_FormatFloat
        (transfer_test_day\<lparr>CreateTransferSchedule.EndDate := ''not-a-date''\<rparr>)) = None"
proof -
  let ?c = "charge_test_day\<lparr>CreateChargeSchedule.StartDate := ''not-a-date''\<rparr>"
  let ?t = "transfer_test_day\<lparr>CreateTransferSchedule.EndDate := ''not-a-date''\<rparr>"
  have 0: "isl (time_Parse ''not-a-date'')"
    by (simp add: time_Parse_not_a_date)
  have 1: "CreateChargeSchedule.StartDate ?c = ''not-a-date''"
    "CreateTransferSchedule.EndDate ?t = ''not-a-date''"
    by (simp_all add: tests_defs)
  have 2: "''not-a-date'' \<noteq> []" by simp
  show ?thesis
    using MarshalJSON_failure_modes [of ?c tests_FormatFloat ?t] 0 2 unfolding 1
    by blast
qed

subsection \<open>C6: the start date may be absent, the end date never is\<close>







subsection \<open>C8: the order of the top-level keys\<close>

text \<open>The bytes of the top-level object, key by key.\<close>

lemma charge_param_json_bytes:
  \<open>encode (charge_param_json p) =
     ''{"every":'' @ strconv_Itoa (charge_param.Every p)
     @ '',"period":'' @ appendString (charge_param.Period p)
     @ (case charge_param.StartDate p of
          None \<Rightarrow> []
        | Some d \<Rightarrow> '',"start_date":'' @ Date_MarshalJSON d)
     @ '',"end_date":'' @ Date_MarshalJSON (charge_param.EndDate p)
     @ (case charge_param.On p of
          None \<Rightarrow> []
        | Some v \<Rightarrow> '',"on":'' @ encode (on_json v))
     @ '',"charge":'' @ encode (charge_json (charge_param.Charge p)) @ ''}''\<close>
  by (simp add: charge_param_json_def split: option.splits)

lemma transfer_param_json_bytes:
  \<open>transfer_param_json fmt p = Inr doc \<Longrightarrow> transfer_json fmt (transfer_param.Transfer p) = Inr tr \<Longrightarrow>
   encode doc =
     ''{"every":'' @ strconv_Itoa (transfer_param.Every p)
     @ '',"period":'' @ appendString (transfer_param.Period p)
     @ (case transfer_param.StartDate p of
          None \<Rightarrow> []
        | Some d \<Rightarrow> '',"start_date":'' @ Date_MarshalJSON d)
     @ '',"end_date":'' @ Date_MarshalJSON (transfer_param.EndDate p)
     @ (case transfer_param.On p of
          None \<Rightarrow> []
        | Some v \<Rightarrow> '',"on":'' @ encode (on_json v))
     @ '',"transfer":'' @ encode tr @ ''}''\<close>
  by (auto simp add: transfer_param_json_def split: option.splits)

text \<open>
  C8. For every request that encodes, the keys of the top-level object come in the fixed
  order \<^verbatim>\<open>every\<close>, \<^verbatim>\<open>period\<close>, \<^verbatim>\<open>start_date\<close> (if present),
  \<^verbatim>\<open>end_date\<close>, \<^verbatim>\<open>on\<close> (if present), then \<^verbatim>\<open>charge\<close> or \<^verbatim>\<open>transfer\<close>. The
  theorem says so of the keys of the document, with the conditions under which the two
  optional keys are present, and of the bytes returned.
\<close>

theorem top_level_key_order:
  \<open>(CreateChargeSchedule_MarshalJSON c = (Some out, None)
    \<longrightarrow> (\<exists>p. CreateChargeSchedule_param c = Inr p
            \<and> object_keys (charge_param_json p) =
                [''every'', ''period'']
                @ (if CreateChargeSchedule.StartDate c = [] then [] else [''start_date''])
                @ [''end_date'']
                @ (if CreateChargeSchedule.Period c = ''week''
                      \<or> CreateChargeSchedule.Period c = ''month''
                        \<and> (CreateChargeSchedule.DaysOfMonth c \<noteq> None
                            \<or> CreateChargeSchedule.WeekdayOfMonth c \<noteq> [])
                   then [''on''] else [])
                @ [''charge'']
            \<and> out =
                ''{"every":'' @ strconv_Itoa (charge_param.Every p)
                @ '',"period":'' @ appendString (charge_param.Period p)
                @ (case charge_param.StartDate p of
                     None \<Rightarrow> []
                   | Some d \<Rightarrow> '',"start_date":'' @ Date_MarshalJSON d)
                @ '',"end_date":'' @ Date_MarshalJSON (charge_param.EndDate p)
                @ (case charge_param.On p of
                     None \<Rightarrow> []
                   | Some v \<Rightarrow> '',"on":'' @ encode (on_json v))
                @ '',"charge":'' @ encode (charge_json (charge_param.Charge p)) @ ''}''))
   \<and> (CreateTransferSchedule_MarshalJSON fmt t = (Some out', None)
    \<longrightarrow> (\<exists>p doc tr. CreateTransferSchedule_param t = Inr p \<and> transfer_param_json fmt p = Inr doc
            \<and> transfer_json fmt (transfer_param.Transfer p) = Inr tr
            \<and> object_keys doc =
                [''every'', ''period'']
                @ (if CreateTransferSchedule.StartDate t = [] then [] else [''start_date''])
                @ [''end_date'']
                @ (if CreateTransferSchedule.Period t = ''week''
                      \<or> CreateTransferSchedule.Period t = ''month''
                        \<and> (CreateTransferSchedule.DaysOfMonth t \<noteq> None
                            \<or> CreateTransferSchedule.WeekdayOfMonth t \<noteq> [])
                   then [''on''] else [])
                @ [''transfer'']
            \<and> out' =
                ''{"every":'' @ strconv_Itoa (transfer_param.Every p)
                @ '',"period":'' @ appendString (transfer_param.Period p)
                @ (case transfer_param.StartDate p of
                     None \<Rightarrow> []
                   | Some d \<Rightarrow> '',"start_date":'' @ Date_MarshalJSON d)
                @ '',"end_date":'' @ Date_MarshalJSON (transfer_param.EndDate p)
                @ (case transfer_param.On p of
                     None \<Rightarrow> []
                   | Some v \<Rightarrow> '',"on":'' @ encode (on_json v))
                @ '',"transfer":'' @ encode tr @ ''}''))\<close>
proof (intro conjI impI)
  assume "CreateChargeSchedule_MarshalJSON c = (Some out, None)"
  then obtain p where p: "CreateChargeSchedule_param c = Inr p" "out = encode (charge_param_json p)"
    using charge_MarshalJSON_Some by blast
  have 1: \<open>object_keys (charge_param_json p) =
                [''every'', ''period'']
                @ (if CreateChargeSchedule.StartDate c = [] then [] else [''start_date''])
                @ [''end_date'']
                @ (if CreateChargeSchedule.Period c = ''week''
                      \<or> CreateChargeSchedule.Period c = ''month''
                        \<and> (CreateChargeSchedule.DaysOfMonth c \<noteq> None
                            \<or> CreateChargeSchedule.WeekdayOfMonth c \<noteq> [])
                   then [''on''] else [])
                @ [''charge'']\<close>
    by (auto simp add: charge_param_json_keys charge_param_fields(3,5) [OF p(1)])
  have 2: \<open>out =
                ''{"every":'' @ strconv_Itoa (charge_param.Every p)
                @ '',"period":'' @ appendString (charge_param.Period p)
                @ (case charge_param.StartDate p of
                     None \<Rightarrow> []
                   | Some d \<Rightarrow> '',"start_date":'' @ Date_MarshalJSON d)
                @ '',"end_date":'' @ Date_MarshalJSON (charge_param.EndDate p)
                @ (case charge_param.On p of
                     None \<Rightarrow> []
                   | Some v \<Rightarrow> '',"on":'' @ encode (on_json v))
                @ '',"charge":'' @ encode (charge_json (charge_param.Charge p)) @ ''}''\<close>
    unfolding p(2) by (rule charge_param_json_bytes)
  from p(1) 1 2 show \<open>\<exists>p. CreateChargeSchedule_param c = Inr p
            \<and> object_keys (charge_param_json p) =
                [''every'', ''period'']
                @ (if CreateChargeSchedule.StartDate c = [] then [] else [''start_date''])
                @ [''end_date'']
                @ (if CreateChargeSchedule.Period c = ''week''
                      \<or> CreateChargeSchedule.Period c = ''month''
                        \<and> (CreateChargeSchedule.DaysOfMonth c \<noteq> None
                            \<or> CreateChargeSchedule.WeekdayOfMonth c \<noteq> [])
                   then [''on''] else [])
                @ [''charge'']
            \<and> out =
                ''{"every":'' @ strconv_Itoa (charge_param.Every p)
                @ '',"period":'' @ appendString (charge_param.Period p)
                @ (case charge_param.StartDate p of
                     None \<Rightarrow> []
                   | Some d \<Rightarrow> '',"start_date":'' @ Date_MarshalJSON d)
                @ '',"end_date":'' @ Date_MarshalJSON (charge_param.EndDate p)
                @ (case charge_param.On p of
                     None \<Rightarrow> []
                   | Some v \<Rightarrow> '',"on":'' @ encode (on_json v))
                @ '',"charge":'' @ encode (charge_json (charge_param.Charge p)) @ ''}''\<close>
    by blast
next
  assume "CreateTransferSchedule_MarshalJSON fmt t = (Some out', None)"
  then obtain p doc where p: "CreateTransferSchedule_param t = Inr p"
      "transfer_param_json fmt p = Inr doc" "out' = encode doc"
    using transfer_MarshalJSON_Some by blast
  from p(2) obtain tr where tr: "transfer_json fmt (transfer_param.Transfer p) = Inr tr"
    by (auto simp: transfer_param_json_def split: sum.splits)
  have 1: \<open>object_keys doc =
                [''every'', ''period'']
                @ (if CreateTransferSchedule.StartDate t = [] then [] else [''start_date''])
                @ [''end_date'']
                @ (if CreateTransferSchedule.Period t = ''week''
                      \<or> CreateTransferSchedule.Period t = ''month''
                        \<and> (CreateTransferSchedule.DaysOfMonth t \<noteq> None
                            \<or> CreateTransferSchedule.WeekdayOfMonth t \<noteq> [])
                   then [''on''] else [])
                @ [''transfer'']\<close>
    by (auto simp add: transfer_param_json_keys [OF p(2)] transfer_param_fields(3,5) [OF p(1)])
  have 2: \<open>out' =
                ''{"every":'' @ strconv_Itoa (transfer_param.Every p)
                @ '',"period":'' @ appendString (transfer_param.Period p)
                @ (case transfer_param.StartDate p of
                     None \<Rightarrow> []
                   | Some d \<Rightarrow> '',"start_date":'' @ Date_MarshalJSON d)
                @ '',"end_date":'' @ Date_MarshalJSON (transfer_param.EndDate p)
                @ (case transfer_param.On p of
                     None \<Rightarrow> []
                   | Some v \<Rightarrow> '',"on":'' @ encode (on_json v))
                @ '',"transfer":'' @ encode tr @ ''}''\<close>
    unfolding p(3) by (rule transfer_param_json_bytes [OF p(2) tr])
  from p(1,2) tr 1 2 show \<open>\<exists>p doc tr. CreateTransferSchedule_param t = Inr p \<and> transfer_param_json fmt p = Inr doc
            \<and> transfer_json fmt (transfer_param.Transfer p) = Inr tr
            \<and> object_keys doc =
                [''every'', ''period'']
                @ (if CreateTransferSchedule.StartDate t = [] then [] else [''start_date''])
                @ [''end_date'']
                @ (if CreateTransferSchedule.Period t = ''week''
                      \<or> CreateTransferSchedule.Period t = ''month''
                        \<and> (CreateTransferSchedule.DaysOfMonth t \<noteq> None
                            \<or> CreateTransferSchedule.WeekdayOfMonth t \<noteq> [])
                   then [''on''] else [])
                @ [''transfer'']
            \<and> out' =
                ''{"every":'' @ strconv_Itoa (transfer_param.Every p)
                @ '',"period":'' @ appendString (transfer_param.Period p)
                @ (case transfer_param.StartDate p of
                     None \<Rightarrow> []
                   | Some d \<Rightarrow> '',"start_date":'' @ Date_MarshalJSON d)
                @ '',"end_date":'' @ Date_MarshalJSON (transfer_param.EndDate p)
                @ (case transfer_param.On p of
                     None \<Rightarrow> []
                   | Some v \<Rightarrow> '',"on":'' @ encode (on_json v))
                @ '',"transfer":'' @ encode tr @ ''}''\<close>
    by blast
qed

theorem top_level_key_order_witness:
  "(\<exists>p. CreateChargeSchedule_param charge_test_week = Inr p
        \<and> object_keys (charge_param_json p) =
            [''every'', ''period'', ''start_date'', ''end_date'', ''on'', ''charge''])
   \<and> (\<exists>p doc. CreateTransferSchedule_param transfer_test_day = Inr p
        \<and> transfer_param_json tests_FormatFloat p = Inr doc
        \<and> object_keys doc = [''every'', ''period'', ''start_date'', ''end_date'', ''transfer''])"
proof -
  have 1: "CreateChargeSchedule.StartDate charge_test_week \<noteq> []"
    "CreateChargeSchedule.Period charge_test_week = ''week''"
    "CreateTransferSchedule.StartDate transfer_test_day \<noteq> []"
    "CreateTransferSchedule.Period transfer_test_day = ''day''"
    by (simp_all add: tests_defs schedule_defs)
  obtain b where m: "CreateChargeSchedule_MarshalJSON charge_test_week = (Some b, None)"
    using charge_test_week_bytes by simp
  obtain b' where m': "CreateTransferSchedule_MarshalJSON tests_FormatFloat transfer_test_day = (Some b', None)"
    using transfer_test_day_bytes by simp
  have c: "\<exists>p. CreateChargeSchedule_param charge_test_week = Inr p
        \<and> object_keys (charge_param_json p) =
            [''every'', ''period'', ''start_date'', ''end_date'', ''on'', ''charge'']"
    using top_level_key_order [of charge_test_week b tests_FormatFloat transfer_test_day b'] m 1
    by auto
  have t: "\<exists>p doc. CreateTransferSchedule_param transfer_test_day = Inr p
        \<and> transfer_param_json tests_FormatFloat p = Inr doc
        \<and> object_keys doc = [''every'', ''period'', ''start_date'', ''end_date'', ''transfer'']"
    using top_level_key_order [of charge_test_week b tests_FormatFloat transfer_test_day b'] m' 1
    by auto
  from c t show ?thesis by blast
qed

subsection \<open>C9: the operation descriptors\<close>

text \<open>
  C9. The descriptors are fixed: \<^verbatim>\<open>CreateChargeSchedule.Op\<close> and
  \<^verbatim>\<open>CreateTransferSchedule.Op\<close> always return the method \<^verbatim>\<open>POST\<close>, the path
  \<^verbatim>\<open>/schedules\<close> and the content type \<^verbatim>\<open>application/json\<close>; for every
  \<^verbatim>\<open>ScheduleID\<close>, \<^verbatim>\<open>RetrieveSchedule.Op\<close> returns \<^verbatim>\<open>GET\<close> and
  \<^verbatim>\<open>DestroySchedule.Op\<close> returns \<^verbatim>\<open>DELETE\<close> with the path \<^verbatim>\<open>/schedules/\<close>
  followed by the identifier, with no content type and no values to send as a body.
\<close>

theorem Op_descriptors:
  "Op.Method (CreateChargeSchedule_Op c) = ''POST''
   \<and> Op.Path (CreateChargeSchedule_Op c) = ''/schedules''
   \<and> Op.ContentType (CreateChargeSchedule_Op c) = ''application/json''
   \<and> Op.Method (CreateTransferSchedule_Op t) = ''POST''
   \<and> Op.Path (CreateTransferSchedule_Op t) = ''/schedules''
   \<and> Op.ContentType (CreateTransferSchedule_Op t) = ''application/json''
   \<and> Op.Method (RetrieveSchedule_Op r) = ''GET''
   \<and> Op.Path (RetrieveSchedule_Op r) = ''/schedules/'' @ RetrieveSchedule.ScheduleID r
   \<and> Op.Values (RetrieveSchedule_Op r) = None
   \<and> Op.ContentType (RetrieveSchedule_Op r) = []
   \<and> Op.Method (DestroySchedule_Op d) = ''DELETE''
   \<and> Op.Path (DestroySchedule_Op d) = ''/schedules/'' @ DestroySchedule.ScheduleID d
   \<and> Op.Values (DestroySchedule_Op d) = None
   \<and> Op.ContentType (DestroySchedule_Op d) = []"
  by (simp add: CreateChargeSchedule_Op_def CreateTransferSchedule_Op_def RetrieveSchedule_Op_def
      DestroySchedule_Op_def)

theorem Op_descriptors_witness:
  "Op.Path (RetrieveSchedule_Op \<lparr>RetrieveSchedule.ScheduleID = ''schd_57z9hj228pusa652nk1''\<rparr>)
     = ''/schedules/schd_57z9hj228pusa652nk1''
   \<and> Op.Method (RetrieveSchedule_Op \<lparr>RetrieveSchedule.ScheduleID = ''schd_57z9hj228pusa652nk1''\<rparr>) = ''GET''
   \<and> Op.Path (DestroySchedule_Op \<lparr>DestroySchedule.ScheduleID = ''schd_57z9hj228pusa652nk1''\<rparr>)
     = ''/schedules/schd_57z9hj228pusa652nk1''
   \<and> Op.Method (DestroySchedule_Op \<lparr>DestroySchedule.ScheduleID = ''schd_57z9hj228pusa652nk1''\<rparr>) = ''DELETE''"
  using Op_descriptors [of charge_zero transfer_test_day
      "\<lparr>RetrieveSchedule.ScheduleID = ''schd_57z9hj228pusa652nk1''\<rparr>"
      "\<lparr>DestroySchedule.ScheduleID = ''schd_57z9hj228pusa652nk1''\<rparr>"]
  by simp

end
